theory Spec2Isabelle
  imports Complex_Main "HOL-Library.Word"
begin

unbundle bit_operations_syntax

section \<open>Data model (package types)\<close>

text \<open>
  \<open>TrustLevel\<close>, \<open>MemoryType\<close> and \<open>RelationType\<close> are Go string types: any string
  is a value, the empty string is the zero value that \<open>Store\<close> reads as "not supplied".
\<close>

type_synonym TrustLevel = string
type_synonym MemoryType = string
type_synonym RelationType = string

definition TrustProposed :: TrustLevel where "TrustProposed = ''proposed''"
definition TrustValidated :: TrustLevel where "TrustValidated = ''validated''"
definition TrustProven :: TrustLevel where "TrustProven = ''proven''"
definition TrustDisputed :: TrustLevel where "TrustDisputed = ''disputed''"
definition TrustObsolete :: TrustLevel where "TrustObsolete = ''obsolete''"

definition TypeGeneral :: MemoryType where "TypeGeneral = ''general''"
definition TypeError :: MemoryType where "TypeError = ''error''"
definition TypePattern :: MemoryType where "TypePattern = ''pattern''"

definition RelSolves :: RelationType where "RelSolves = ''solves''"

text \<open>
  A \<open>time.Time\<close> is an instant counted in nanoseconds. A \<open>[]string\<close> that may be
  \<open>nil\<close> is an option: \<open>None\<close> is \<open>nil\<close>, \<open>Some []\<close> the empty non-nil slice
  (\<open>Store\<close> tests \<open>opts.Tags != nil\<close>). Go's \<open>int\<close> is \<open>int\<close>, with the 64-bit
  wrap-around written out where the code multiplies. A \<open>float64\<close> score is idealised
  as a real number; a \<open>float32\<close> is its 32-bit pattern, which is all the storage code
  reads of it.
\<close>

type_synonym time = nat
type_synonym float32 = "32 word"

record Metadata =
  Source :: string
  Project :: string
  Author :: string
  ExtraData :: "(string \<times> string) list"

record Memory =
  ID :: string
  Content :: string
  Type :: MemoryType
  TopicKey :: string
  Tags :: "string list option"
  Trust :: TrustLevel
  Metadata :: Metadata
  CreatedAt :: time
  UpdatedAt :: time
  AccessCnt :: int

record Relation =
  RelID :: string
  FromID :: string
  ToID :: string
  RelType :: RelationType
  Note :: string
  RelCreatedAt :: time

record SearchResult =
  Memory :: Memory
  Score :: real
  MatchType :: string

record StoreOptions =
  sTopicKey :: string
  sTags :: "string list option"
  sType :: MemoryType
  sTrust :: TrustLevel
  sProject :: string
  sSource :: string
  sExtraData :: "(string \<times> string) list"

record RecallOptions =
  Limit :: int
  MinScore :: real
  Types :: "MemoryType list"
  rTags :: "string list option"
  TrustLevels :: "TrustLevel list"
  rProject :: string
  rTopicKey :: string

section \<open>The database (package db)\<close>

text \<open>
  One record per table of \<open>migrate\<close>, a table being the list of its rows in rowid
  order. The JSON text of the \<open>tags\<close> and \<open>metadata\<close> columns is held as the value it
  encodes. A timestamp column holds an RFC 3339 text, which has whole seconds: it is
  held as the number of seconds, whose order is the order of the texts in one zone.
  \<open>fts_memories\<close> is an external-content index over \<open>memories\<close> that the three
  triggers keep in step with the table, so it is a function of the table.
\<close>

record memory_row =
  m_id :: string
  m_content :: string
  m_type :: string
  m_topic_key :: string
  m_tags :: "string list option"
  m_trust :: string
  m_metadata :: Metadata
  m_created_at :: nat
  m_updated_at :: nat
  m_access_count :: int

record relation_row =
  r_id :: string
  r_from_id :: string
  r_to_id :: string
  r_type :: string
  r_note :: string
  r_created_at :: nat

record embedding_row =
  e_memory_id :: string
  e_embedding :: "8 word list"
  e_model :: string
  e_created_at :: nat

record vec_row =
  v_memory_id :: string
  v_embedding :: "float32 list"

record DB =
  foreign_keys :: bool
  memories :: "memory_row list"
  relations :: "relation_row list"
  embeddings :: "embedding_row list"
  vec_memories :: "vec_row list"

datatype error =
    Storage
  | Provider
  | FailedToSaveMemory error
  | FailedToSaveRelation error
  | FailedToEmbedQuery error
  | VectorSearchFailed error
  | SourceMemoryNotFound string
  | TargetMemoryNotFound string
  | SliceBoundsOutOfRange

datatype warning =
    FailedToGenerateEmbedding error
  | FailedToSaveEmbedding error

text \<open>The SQL statements, named after the function that runs them.\<close>

datatype stmt =
    SaveMemoryStmt
  | GetMemoryStmt string
  | GetMemoryByTopicKeyStmt
  | ListMemoriesStmt
  | DeleteMemoryStmt
  | IncrementAccessCountStmt string
  | SaveRelationStmt
  | SaveEmbeddingStmt
  | VecDeleteStmt
  | VecInsertStmt
  | GetEmbeddingStmt

text \<open>
  What a query gives the loop \<open>for rows.Next() { rows.Scan(...) }\<close> of the two
  search functions: \<open>conn.Query\<close> fails; or a \<open>Scan\<close> fails; or the rows are
  stepped to the end, which is the last row or an error the engine raises while
  stepping. \<open>rows.Next\<close> answers false at both ends, and only \<open>rows.Err\<close> tells
  them apart.
\<close>

datatype 'a query_result =
    QueryFailed error
  | ScanFailed error
  | Stepped "'a list" "error option"

text \<open>
  What one engine call meets outside the code: the embedding provider, the random
  identifier and the clock readings (\<open>timeNow\<close> is read up to twice in a call,
  \<open>time.Now\<close> by the db package), the storage engine failing a statement, and the two
  search indexes, which the code treats as black boxes: \<open>vec0_knn\<close> answers
  \<open>embedding MATCH ? AND k = ?\<close> on the rows of \<open>vec_memories\<close>, \<open>fts5_match\<close> answers
  \<open>fts_memories MATCH ? ORDER BY rank\<close> on the indexed table.
\<close>

record env =
  Embed :: "string \<Rightarrow> error + float32 list"
  Model :: string
  generateID :: string
  timeNow :: "nat \<Rightarrow> time"
  time_Now :: time
  fails :: "stmt \<Rightarrow> bool"
  vec0_knn :: "vec_row list \<Rightarrow> float32 list \<Rightarrow> int \<Rightarrow> (string \<times> real) query_result"
  fts5_match :: "memory_row list \<Rightarrow> string \<Rightarrow> string query_result"

definition format_RFC3339 :: "time \<Rightarrow> nat" where
  "format_RFC3339 t = t div 1000000000"

definition parse_RFC3339 :: "nat \<Rightarrow> time" where
  "parse_RFC3339 s = s * 1000000000"

subsection \<open>Opening the database\<close>

text \<open>
  \<open>New\<close> opens the file with the DSN \<open>path?_journal_mode=WAL&_busy_timeout=5000\<close>.
  SQLite enforces foreign keys, and so runs \<open>ON DELETE CASCADE\<close>, only on a connection
  where the pragma is on; the driver turns it on for \<open>_foreign_keys\<close> (or \<open>_fk\<close>) in
  the DSN and leaves the library's default, off, otherwise (the Makefile builds with
  the tag \<open>fts5\<close> and \<open>-DSQLITE_ENABLE_FTS5\<close> only). \<open>migrate\<close> creates what is
  missing and keeps the rows of the file.
\<close>

definition dsn :: "(string \<times> string) list" where
  "dsn = [(''_journal_mode'', ''WAL''), (''_busy_timeout'', ''5000'')]"

definition dsn_foreign_keys :: "(string \<times> string) list \<Rightarrow> bool" where
  "dsn_foreign_keys params =
     (case map_of params ''_foreign_keys'' of
        Some v \<Rightarrow> v \<in> set [''1'', ''yes'', ''true'', ''on'']
      | None \<Rightarrow>
          (case map_of params ''_fk'' of
             Some v \<Rightarrow> v \<in> set [''1'', ''yes'', ''true'', ''on'']
           | None \<Rightarrow> False))"

definition New :: "DB \<Rightarrow> DB" where
  "New file = file\<lparr>foreign_keys := dsn_foreign_keys dsn\<rparr>"

definition empty_file :: DB where
  "empty_file = \<lparr>foreign_keys = False, memories = [], relations = [], embeddings = [],
     vec_memories = []\<rparr>"

subsection \<open>Memories\<close>

definition scanMemory :: "memory_row \<Rightarrow> Memory" where
  "scanMemory row =
     \<lparr>ID = m_id row, Content = m_content row, Type = m_type row,
      TopicKey = m_topic_key row, Tags = m_tags row, Trust = m_trust row,
      Metadata = m_metadata row, CreatedAt = parse_RFC3339 (m_created_at row),
      UpdatedAt = parse_RFC3339 (m_updated_at row), AccessCnt = m_access_count row\<rparr>"

text \<open>
  \<open>INSERT ... ON CONFLICT(id) DO UPDATE SET\<close> every column but \<open>id\<close> and
  \<open>created_at\<close>.
\<close>

definition upsert_memory :: "memory_row \<Rightarrow> memory_row list \<Rightarrow> memory_row list" where
  "upsert_memory new rows =
     (if m_id new \<in> set (map m_id rows)
      then map (\<lambda>old. if m_id old = m_id new
                       then new\<lparr>m_created_at := m_created_at old\<rparr> else old) rows
      else rows @ [new])"

text \<open>The values \<open>SaveMemory\<close> binds to the statement: the row of a memory.\<close>

definition row_values :: "Memory \<Rightarrow> memory_row" where
  "row_values m =
     \<lparr>m_id = ID m, m_content = Content m, m_type = Type m, m_topic_key = TopicKey m,
      m_tags = Tags m, m_trust = Trust m, m_metadata = Metadata m,
      m_created_at = format_RFC3339 (CreatedAt m),
      m_updated_at = format_RFC3339 (UpdatedAt m), m_access_count = AccessCnt m\<rparr>"

definition SaveMemory :: "env \<Rightarrow> DB \<Rightarrow> Memory \<Rightarrow> (error + unit) \<times> DB" where
  "SaveMemory e db m =
     (if fails e SaveMemoryStmt then (Inl Storage, db)
      else (Inr (), db\<lparr>memories := upsert_memory (row_values m) (memories db)\<rparr>))"

definition GetMemory :: "env \<Rightarrow> DB \<Rightarrow> string \<Rightarrow> error + Memory option" where
  "GetMemory e db i =
     (if fails e (GetMemoryStmt i) then Inl Storage
      else Inr (map_option scanMemory (find (\<lambda>row. m_id row = i) (memories db))))"

text \<open>
  \<open>ORDER BY updated_at DESC\<close>; SQL leaves the order of rows with equal keys open, the
  model keeps them in rowid order.
\<close>

definition order_by_updated_at_desc :: "memory_row list \<Rightarrow> memory_row list" where
  "order_by_updated_at_desc rows = sort_key (\<lambda>row. - int (m_updated_at row)) rows"

definition GetMemoryByTopicKey :: "env \<Rightarrow> DB \<Rightarrow> string \<Rightarrow> error + Memory option" where
  "GetMemoryByTopicKey e db topicKey =
     (if fails e GetMemoryByTopicKeyStmt then Inl Storage
      else (case order_by_updated_at_desc
                   (filter (\<lambda>row. m_topic_key row = topicKey) (memories db)) of
              [] \<Rightarrow> Inr None
            | row # _ \<Rightarrow> Inr (Some (scanMemory row))))"

text \<open>
  \<open>DELETE FROM memories WHERE id = ?\<close>. The rows of \<open>relations\<close> and \<open>embeddings\<close>
  that reference the memory go with it where the connection enforces foreign keys;
  \<open>vec_memories\<close> is a virtual table without a foreign key.
\<close>

definition DeleteMemory :: "env \<Rightarrow> DB \<Rightarrow> string \<Rightarrow> (error + unit) \<times> DB" where
  "DeleteMemory e db i =
     (if fails e DeleteMemoryStmt then (Inl Storage, db)
      else (Inr (),
            db\<lparr>memories := filter (\<lambda>row. m_id row \<noteq> i) (memories db),
               relations := (if foreign_keys db
                             then filter (\<lambda>r. r_from_id r \<noteq> i \<and> r_to_id r \<noteq> i) (relations db)
                             else relations db),
               embeddings := (if foreign_keys db
                              then filter (\<lambda>r. e_memory_id r \<noteq> i) (embeddings db)
                              else embeddings db)\<rparr>))"

definition IncrementAccessCount :: "env \<Rightarrow> DB \<Rightarrow> string \<Rightarrow> (error + unit) \<times> DB" where
  "IncrementAccessCount e db i =
     (if fails e (IncrementAccessCountStmt i) then (Inl Storage, db)
      else (Inr (),
            db\<lparr>memories := map (\<lambda>row. if m_id row = i
                                      then row\<lparr>m_access_count := m_access_count row + 1\<rparr>
                                      else row) (memories db)\<rparr>))"

text \<open>
  \<open>topic_key LIKE ?\<close> with the argument \<open>opts.TopicKey + "%"\<close>: SQLite's \<open>LIKE\<close>
  matches \<open>%\<close> against any run of characters and \<open>_\<close> against any one, and
  compares ASCII letters without case. A string is its bytes here, so \<open>_\<close> matches
  one byte where SQLite matches one UTF-8 character.
\<close>

definition ascii_upper :: "char \<Rightarrow> char" where
  "ascii_upper c =
     (let n = (of_char c :: nat) in if 97 \<le> n \<and> n \<le> 122 then char_of (n - 32) else c)"

fun sql_like :: "string \<Rightarrow> string \<Rightarrow> bool" where
  "sql_like [] s = (s = [])"
| "sql_like (p # ps) [] = (p = CHR ''%'' \<and> sql_like ps [])"
| "sql_like (p # ps) (c # cs) =
     (if p = CHR ''%'' then sql_like ps (c # cs) \<or> sql_like (p # ps) cs
      else (p = CHR ''_'' \<or> ascii_upper p = ascii_upper c) \<and> sql_like ps cs)"

definition sql_limit :: "int \<Rightarrow> 'a list \<Rightarrow> 'a list" where
  "sql_limit n rows = (if n < 0 then rows else take (nat n) rows)"

text \<open>
  The \<open>WHERE\<close> clause \<open>ListMemories\<close> builds: one condition for each filter that
  is set, joined by \<open>AND\<close>.
\<close>

definition list_conditions :: "RecallOptions \<Rightarrow> memory_row \<Rightarrow> bool" where
  "list_conditions opts row =
     ((if length (Types opts) > 0 then m_type row \<in> set (Types opts) else True) \<and>
      (if length (TrustLevels opts) > 0 then m_trust row \<in> set (TrustLevels opts) else True) \<and>
      (if rProject opts \<noteq> [] then Project (m_metadata row) = rProject opts else True) \<and>
      (if rTopicKey opts \<noteq> [] then sql_like (rTopicKey opts @ ''%'') (m_topic_key row)
       else True))"

definition ListMemories :: "env \<Rightarrow> DB \<Rightarrow> RecallOptions \<Rightarrow> error + Memory list" where
  "ListMemories e db opts =
     (if fails e ListMemoriesStmt then Inl Storage
      else Inr (map scanMemory
                 ((if Limit opts > 0 then sql_limit (Limit opts) else (\<lambda>rows. rows))
                    (order_by_updated_at_desc
                       (filter (list_conditions opts) (memories db))))))"

subsection \<open>Relations\<close>

text \<open>
  A plain \<open>INSERT\<close>: it fails on a primary key already present and, where foreign keys
  are enforced, on an endpoint that is not a memory.
\<close>

definition SaveRelation :: "env \<Rightarrow> DB \<Rightarrow> Relation \<Rightarrow> (error + unit) \<times> DB" where
  "SaveRelation e db r =
     (if fails e SaveRelationStmt
         \<or> RelID r \<in> set (map r_id (relations db))
         \<or> (foreign_keys db \<and>
               \<not> (FromID r \<in> set (map m_id (memories db)) \<and>
                   ToID r \<in> set (map m_id (memories db))))
      then (Inl Storage, db)
      else (Inr (),
            db\<lparr>relations := relations db @
                 [\<lparr>r_id = RelID r, r_from_id = FromID r, r_to_id = ToID r,
                   r_type = RelType r, r_note = Note r,
                   r_created_at = format_RFC3339 (RelCreatedAt r)\<rparr>]\<rparr>))"

subsection \<open>Embeddings\<close>

text \<open>
  \<open>float32ToBytes\<close> reads each float's bits as a \<open>uint32\<close> and writes its four bytes,
  low byte first; \<open>bytesToFloat32\<close> reads \<open>len(bytes)/4\<close> groups of four bytes back.
\<close>

fun float32ToBytes :: "float32 list \<Rightarrow> 8 word list" where
  "float32ToBytes [] = []"
| "float32ToBytes (bits # floats) =
     ucast bits # ucast (drop_bit 8 bits) # ucast (drop_bit 16 bits) # ucast (drop_bit 24 bits)
       # float32ToBytes floats"

fun bytesToFloat32 :: "8 word list \<Rightarrow> float32 list" where
  "bytesToFloat32 (b0 # b1 # b2 # b3 # bytes) =
     (ucast b0 OR push_bit 8 (ucast b1) OR push_bit 16 (ucast b2) OR push_bit 24 (ucast b3))
       # bytesToFloat32 bytes"
| "bytesToFloat32 _ = []"

definition upsert_embedding :: "embedding_row \<Rightarrow> embedding_row list \<Rightarrow> embedding_row list" where
  "upsert_embedding new rows =
     (if e_memory_id new \<in> set (map e_memory_id rows)
      then map (\<lambda>old. if e_memory_id old = e_memory_id new then new else old) rows
      else rows @ [new])"

text \<open>
  Three statements. The first writes the cache row and its failure is returned. The
  second clears the index entry and its error is dropped. The third inserts the index
  entry: \<open>vec_memories\<close> declares \<open>embedding float[1536]\<close> and a primary key, so a
  vector of another length or a key still present is refused. \<open>serializeVector\<close>
  writes the vector as JSON text, held here as the vector; it drops the error of
  \<open>json.Marshal\<close>, which refuses NaN and infinities, and the insert of the empty text
  it then binds is one of the failures of the third statement.
\<close>

definition SaveEmbedding ::
  "env \<Rightarrow> DB \<Rightarrow> string \<Rightarrow> float32 list \<Rightarrow> string \<Rightarrow> (error + unit) \<times> DB" where
  "SaveEmbedding e db memoryID embedding model' =
     (let embBytes = float32ToBytes embedding in
      if fails e SaveEmbeddingStmt
         \<or> (foreign_keys db \<and> memoryID \<notin> set (map m_id (memories db)))
      then (Inl Storage, db)
      else
        let db1 = db\<lparr>embeddings := upsert_embedding
                        \<lparr>e_memory_id = memoryID, e_embedding = embBytes, e_model = model',
                         e_created_at = format_RFC3339 (time_Now e)\<rparr> (embeddings db)\<rparr>;
            db2 = (if fails e VecDeleteStmt then db1
                   else db1\<lparr>vec_memories :=
                              filter (\<lambda>row. v_memory_id row \<noteq> memoryID) (vec_memories db1)\<rparr>)
        in if fails e VecInsertStmt \<or> length embedding \<noteq> 1536
              \<or> memoryID \<in> set (map v_memory_id (vec_memories db2))
           then (Inl Storage, db2)
           else (Inr (),
                 db2\<lparr>vec_memories := vec_memories db2 @
                       [\<lparr>v_memory_id = memoryID, v_embedding = embedding\<rparr>]\<rparr>))"

definition GetEmbedding :: "env \<Rightarrow> DB \<Rightarrow> string \<Rightarrow> error + float32 list option" where
  "GetEmbedding e db memoryID =
     (if fails e GetEmbeddingStmt then Inl Storage
      else (case find (\<lambda>row. e_memory_id row = memoryID) (embeddings db) of
              None \<Rightarrow> Inr None
            | Some row \<Rightarrow> Inr (Some (bytesToFloat32 (e_embedding row)))))"

subsection \<open>Search\<close>

text \<open>
  \<open>VectorSearch\<close> is declared with a query vector and a limit, and \<open>Recall\<close> calls
  it with the trust levels as a third argument. The model gives it the argument of the
  call and the body of the declaration, whose SQL
  \<open>SELECT memory_id, distance FROM vec_memories WHERE embedding MATCH ? AND k = ?\<close>
  reads \<open>vec_memories\<close> only.

  Both search functions return the error of \<open>conn.Query\<close> and the error of
  \<open>rows.Scan\<close>, and neither reads \<open>rows.Err()\<close> after the loop: when the engine
  raises an error while stepping, the function returns the rows read so far and no
  error.
\<close>

definition VectorSearch ::
  "env \<Rightarrow> DB \<Rightarrow> float32 list \<Rightarrow> int \<Rightarrow> TrustLevel list \<Rightarrow> error + (string \<times> real) list" where
  "VectorSearch e db queryEmb limit trustLevels =
     (case vec0_knn e (vec_memories db) queryEmb limit of
        QueryFailed err \<Rightarrow> Inl err
      | ScanFailed err \<Rightarrow> Inl err
      | Stepped results end \<Rightarrow> Inr results)"

definition FTSSearch :: "env \<Rightarrow> DB \<Rightarrow> string \<Rightarrow> int \<Rightarrow> error + string list" where
  "FTSSearch e db query limit =
     (case fts5_match e (memories db) query of
        QueryFailed err \<Rightarrow> Inl err
      | ScanFailed err \<Rightarrow> Inl err
      | Stepped ids end \<Rightarrow> Inr (sql_limit limit ids))"

section \<open>The engine (package core)\<close>

text \<open>
  \<open>Store\<close> in its two parts: \<open>store_memory\<close> is the record it builds (the lookup
  by topic key, whose error it drops, then the update of the record found or the new
  record with its defaults); \<open>Store\<close> saves it and then the embedding, printing a
  warning to standard error where the embedding fails.
\<close>

definition store_memory :: "env \<Rightarrow> DB \<Rightarrow> string \<Rightarrow> StoreOptions \<Rightarrow> Memory" where
  "store_memory e db content opts =
     (let existing =
            (if sTopicKey opts \<noteq> []
             then (case GetMemoryByTopicKey e db (sTopicKey opts) of
                     Inl err \<Rightarrow> None
                   | Inr found \<Rightarrow> found)
             else None)
      in case existing of
           Some old \<Rightarrow>
             old\<lparr>Content := content,
                 UpdatedAt := timeNow e 0,
                 Tags := (if sTags opts \<noteq> None then sTags opts else Tags old),
                 Type := (if sType opts \<noteq> [] then sType opts else Type old),
                 Trust := (if sTrust opts \<noteq> [] then sTrust opts else Trust old)\<rparr>
         | None \<Rightarrow>
             \<lparr>ID = generateID e,
              Content = content,
              Type = (if sType opts = [] then TypeGeneral else sType opts),
              TopicKey = sTopicKey opts,
              Tags = sTags opts,
              Trust = (if sTrust opts = [] then TrustProposed else sTrust opts),
              Metadata = \<lparr>Source = sSource opts, Project = sProject opts, Author = [],
                          ExtraData = sExtraData opts\<rparr>,
              CreatedAt = timeNow e 0,
              UpdatedAt = timeNow e 1,
              AccessCnt = 0\<rparr>)"

definition Store ::
  "env \<Rightarrow> DB \<Rightarrow> string \<Rightarrow> StoreOptions \<Rightarrow> (error + Memory) \<times> DB \<times> warning list" where
  "Store e db content opts =
     (let memory = store_memory e db content opts
      in case SaveMemory e db memory of
           (Inl err, db1) \<Rightarrow> (Inl (FailedToSaveMemory err), db1, [])
         | (Inr u, db1) \<Rightarrow>
             (case Embed e content of
                Inl err \<Rightarrow> (Inr memory, db1, [FailedToGenerateEmbedding err])
              | Inr embedding \<Rightarrow>
                  (case SaveEmbedding e db1 (ID memory) embedding (Model e) of
                     (Inl err, db2) \<Rightarrow> (Inr memory, db2, [FailedToSaveEmbedding err])
                   | (Inr u', db2) \<Rightarrow> (Inr memory, db2, []))))"

text \<open>
  The body of the loop of \<open>Recall\<close>: the three local variables of the hybrid score.
\<close>

definition semanticScore :: "real \<Rightarrow> real" where
  "semanticScore distance = (let s = 1.0 - distance / 2.0 in if s < 0 then 0 else s)"

definition keywordBoost :: "string set \<Rightarrow> string \<Rightarrow> real" where
  "keywordBoost ftsSet memoryID = (if memoryID \<in> ftsSet then 0.15 else 0.0)"

definition finalScore :: "string set \<Rightarrow> string \<times> real \<Rightarrow> real" where
  "finalScore ftsSet vr = semanticScore (snd vr) * 0.7 + keywordBoost ftsSet (fst vr)"

text \<open>
  The loop over \<open>vecResults\<close>, with the variables it updates: \<open>seen\<close>, \<open>results\<close> and
  the database, whose access counts it increments.
\<close>

fun recall_loop ::
  "env \<Rightarrow> real \<Rightarrow> string set \<Rightarrow> (string \<times> real) list \<Rightarrow>
   string set \<Rightarrow> SearchResult list \<Rightarrow> DB \<Rightarrow> SearchResult list \<times> DB" where
  "recall_loop e minScore ftsSet [] seen results db = (results, db)"
| "recall_loop e minScore ftsSet (vr # vecResults) seen results db =
     (if fst vr \<in> seen then recall_loop e minScore ftsSet vecResults seen results db
      else
        (case GetMemory e db (fst vr) of
           Inl err \<Rightarrow> recall_loop e minScore ftsSet vecResults (insert (fst vr) seen) results db
         | Inr None \<Rightarrow> recall_loop e minScore ftsSet vecResults (insert (fst vr) seen) results db
         | Inr (Some memory) \<Rightarrow>
             if finalScore ftsSet vr < minScore
             then recall_loop e minScore ftsSet vecResults (insert (fst vr) seen) results db
             else recall_loop e minScore ftsSet vecResults (insert (fst vr) seen)
                    (results @ [\<lparr>Memory = memory, Score = finalScore ftsSet vr,
                                 MatchType = ''hybrid''\<rparr>])
                    (snd (IncrementAccessCount e db (ID memory)))))"

definition go_int :: "int \<Rightarrow> int" where
  "go_int n = signed_take_bit 63 n"

definition with_defaults :: "RecallOptions \<Rightarrow> RecallOptions" where
  "with_defaults opts =
     (let opts = (if Limit opts = 0 then opts\<lparr>Limit := 5\<rparr> else opts);
          opts = (if MinScore opts = 0 then opts\<lparr>MinScore := 0.3\<rparr> else opts);
          opts = (if length (TrustLevels opts) = 0
                  then opts\<lparr>TrustLevels := [TrustValidated, TrustProven]\<rparr> else opts)
      in opts)"

text \<open>
  \<open>results[:opts.Limit]\<close> panics for a negative limit; the panic is the error
  \<open>SliceBoundsOutOfRange\<close>.
\<close>

definition Recall ::
  "env \<Rightarrow> DB \<Rightarrow> string \<Rightarrow> RecallOptions \<Rightarrow> (error + SearchResult list) \<times> DB" where
  "Recall e db query opts0 =
     (let opts = with_defaults opts0 in
      case Embed e query of
        Inl err \<Rightarrow> (Inl (FailedToEmbedQuery err), db)
      | Inr queryEmb \<Rightarrow>
          (case VectorSearch e db queryEmb (go_int (Limit opts * 2)) (TrustLevels opts) of
             Inl err \<Rightarrow> (Inl (VectorSearchFailed err), db)
           | Inr vecResults \<Rightarrow>
               let ftsIDs = (case FTSSearch e db query (go_int (Limit opts * 2)) of
                               Inl err \<Rightarrow> []
                             | Inr ids \<Rightarrow> ids);
                   ftsSet = set ftsIDs;
                   loop = recall_loop e (MinScore opts) ftsSet vecResults {} [] db;
                   results = fst loop;
                   db1 = snd loop
               in if int (length results) > Limit opts
                  then (if Limit opts < 0 then (Inl SliceBoundsOutOfRange, db1)
                        else (Inr (take (nat (Limit opts)) results), db1))
                  else (Inr results, db1)))"

definition Get :: "env \<Rightarrow> DB \<Rightarrow> string \<Rightarrow> error + Memory option" where
  "Get e db i = GetMemory e db i"

definition List_memories :: "env \<Rightarrow> DB \<Rightarrow> RecallOptions \<Rightarrow> error + Memory list" where
  "List_memories e db opts = ListMemories e db opts"

definition Delete :: "env \<Rightarrow> DB \<Rightarrow> string \<Rightarrow> (error + unit) \<times> DB" where
  "Delete e db i = DeleteMemory e db i"

definition Relate ::
  "env \<Rightarrow> DB \<Rightarrow> string \<Rightarrow> string \<Rightarrow> RelationType \<Rightarrow> string \<Rightarrow> (error + Relation) \<times> DB" where
  "Relate e db fromID toID relType note =
     (case GetMemory e db fromID of
        Inl err \<Rightarrow> (Inl (SourceMemoryNotFound fromID), db)
      | Inr None \<Rightarrow> (Inl (SourceMemoryNotFound fromID), db)
      | Inr (Some from) \<Rightarrow>
          (case GetMemory e db toID of
             Inl err \<Rightarrow> (Inl (TargetMemoryNotFound toID), db)
           | Inr None \<Rightarrow> (Inl (TargetMemoryNotFound toID), db)
           | Inr (Some to) \<Rightarrow>
               (let relation = \<lparr>RelID = generateID e, FromID = fromID, ToID = toID,
                                RelType = relType, Note = note, RelCreatedAt = timeNow e 0\<rparr>
                in case SaveRelation e db relation of
                     (Inl err, db1) \<Rightarrow> (Inl (FailedToSaveRelation err), db1)
                   | (Inr u, db1) \<Rightarrow> (Inr relation, db1))))"

section \<open>Notions the properties are stated with\<close>

text \<open>
  The keyword hit set of a recall: the identifiers \<open>FTSSearch\<close> returned, none when it
  failed.
\<close>

definition keyword_hits :: "env \<Rightarrow> DB \<Rightarrow> string \<Rightarrow> int \<Rightarrow> string set" where
  "keyword_hits e db query limit =
     set (case FTSSearch e db query limit of Inl err \<Rightarrow> [] | Inr ids \<Rightarrow> ids)"

text \<open>
  The vector-search hits without repetition, the first hit of each identifier kept,
  in the order of the search.
\<close>

fun dedup_hits :: "string set \<Rightarrow> (string \<times> real) list \<Rightarrow> (string \<times> real) list" where
  "dedup_hits seen [] = []"
| "dedup_hits seen (vr # vrs) =
     (if fst vr \<in> seen then dedup_hits seen vrs
      else vr # dedup_hits (insert (fst vr) seen) vrs)"

text \<open>A hit is fetched when \<open>GetMemory\<close> returns its record.\<close>

definition fetched :: "env \<Rightarrow> DB \<Rightarrow> string \<Rightarrow> bool" where
  "fetched e db i = (case GetMemory e db i of Inr (Some memory) \<Rightarrow> True | _ \<Rightarrow> False)"

text \<open>The result a hit gives: none when it is not fetched or scores under the threshold.\<close>

definition hit_result :: "env \<Rightarrow> DB \<Rightarrow> real \<Rightarrow> string set \<Rightarrow> string \<times> real \<Rightarrow> SearchResult option" where
  "hit_result e db minScore ftsSet vr =
     (case GetMemory e db (fst vr) of
        Inr (Some memory) \<Rightarrow>
          if finalScore ftsSet vr < minScore then None
          else Some \<lparr>Memory = memory, Score = finalScore ftsSet vr, MatchType = ''hybrid''\<rparr>
      | _ \<Rightarrow> None)"

text \<open>The similarity and the score in the words of the specification.\<close>

definition clamp :: "real \<Rightarrow> real \<Rightarrow> real \<Rightarrow> real" where
  "clamp x lo hi = max lo (min hi x)"

definition spec_score :: "real \<Rightarrow> bool \<Rightarrow> real" where
  "spec_score d keyword = 0.7 * clamp (1 - d / 2) 0 1 + (if keyword then 0.15 else 0)"

text \<open>
  The identifiers a recall returns in the words of the specification: the hits without
  repetition whose score passes the threshold, cut to the limit.
\<close>

definition spec_recall_ids ::
  "int \<Rightarrow> real \<Rightarrow> string set \<Rightarrow> (string \<times> real) list \<Rightarrow> string list" where
  "spec_recall_ids limit minScore ftsSet hits =
     take (nat limit)
       (map fst (filter (\<lambda>vr. minScore \<le> finalScore ftsSet vr) (dedup_hits {} hits)))"

section \<open>A small store to run the code on\<close>

text \<open>
  A provider that maps every text to one vector of 1536 floats, a storage engine that
  fails no statement, and two indexes that find exact matches: the nearest-neighbour
  index reports the rows whose vector is the query vector, at distance 0, the later
  row first, and the keyword index the rows whose content is the query. On the stores
  below, where the contents share no word, that is what the real indexes answer. As
  sqlite-vec does, the nearest-neighbour index raises an error while stepping when
  \<open>k\<close> is negative or above its limit of 4096.
\<close>

definition example_vector :: "float32 list" where
  "example_vector = replicate 1536 0x3F800000"

definition exact_knn ::
  "vec_row list \<Rightarrow> float32 list \<Rightarrow> int \<Rightarrow> (string \<times> real) query_result" where
  "exact_knn rows queryEmb k =
     (if k < 0 \<or> 4096 < k then Stepped [] (Some Storage)
      else Stepped (take (nat k)
                     (map (\<lambda>row. (v_memory_id row, 0))
                        (rev (filter (\<lambda>row. v_embedding row = queryEmb) rows))))
             None)"

definition exact_fts :: "memory_row list \<Rightarrow> string \<Rightarrow> string query_result" where
  "exact_fts rows query =
     Stepped (map m_id (filter (\<lambda>row. m_content row = query) rows)) None"

definition example_env :: env where
  "example_env =
     \<lparr>Embed = (\<lambda>text. Inr example_vector), Model = ''text-embedding-3-small'',
      generateID = ''a1'', timeNow = (\<lambda>n. 1700000000000000000 + n),
      time_Now = 1700000000000000000, fails = (\<lambda>s. False),
      vec0_knn = exact_knn, fts5_match = exact_fts\<rparr>"

definition no_options :: StoreOptions where
  "no_options = \<lparr>sTopicKey = [], sTags = None, sType = [], sTrust = [], sProject = [],
     sSource = [], sExtraData = []\<rparr>"

definition default_options :: RecallOptions where
  "default_options = \<lparr>Limit = 0, MinScore = 0, Types = [], rTags = None, TrustLevels = [],
     rProject = [], rTopicKey = []\<rparr>"

text \<open>The store after \<open>store("apply fix")\<close> with no options on a new database.\<close>

definition one_proposed :: DB where
  "one_proposed = fst (snd (Store example_env (New empty_file) ''apply fix'' no_options))"

text \<open>
  The store after that memory is deleted: its row of \<open>vec_memories\<close> is still there.
\<close>

definition one_deleted :: DB where
  "one_deleted = snd (Delete example_env one_proposed ''a1'')"

text \<open>
  A store with two validated memories, \<open>a1\<close> and \<open>b2\<close>, then with the relation
  \<open>b2 solves a1\<close>, then with \<open>a1\<close> deleted.
\<close>

definition validated_options :: StoreOptions where
  "validated_options = no_options\<lparr>sTrust := TrustValidated\<rparr>"

definition two_validated :: DB where
  "two_validated =
     fst (snd (Store (example_env\<lparr>generateID := ''b2''\<rparr>)
       (fst (snd (Store example_env (New empty_file) ''retry the upload'' validated_options)))
       ''restart the worker'' validated_options))"

definition two_related :: DB where
  "two_related =
     snd (Relate (example_env\<lparr>generateID := ''c3''\<rparr>) two_validated ''b2'' ''a1'' RelSolves [])"

definition two_deleted :: DB where
  "two_deleted = snd (Delete example_env two_related ''a1'')"

text \<open>
  An index that answers a query with \<open>a1\<close> at distance 0.1 and \<open>b2\<close> at distance
  0.2, and the two results \<open>Recall\<close> then gives for the query
  \<open>restart the worker\<close>; and the options of \<open>recall --limit 3000\<close>.
\<close>

definition limit_3000 :: RecallOptions where
  "limit_3000 = default_options\<lparr>Limit := 3000\<rparr>"

definition ranked_env :: env where
  "ranked_env =
     example_env\<lparr>vec0_knn :=
       \<lambda>rows queryEmb k. Stepped [(''a1'', 1 / 10), (''b2'', 1 / 5)] None\<rparr>"

definition two_results :: "SearchResult list" where
  "two_results =
     [\<lparr>Memory = \<lparr>ID = ''a1'', Content = ''retry the upload'', Type = TypeGeneral,
          TopicKey = [], Tags = None, Trust = TrustValidated,
          Metadata = \<lparr>Source = [], Project = [], Author = [], ExtraData = []\<rparr>,
          CreatedAt = 1700000000000000000, UpdatedAt = 1700000000000000000, AccessCnt = 0\<rparr>,
       Score = 133 / 200, MatchType = ''hybrid''\<rparr>,
      \<lparr>Memory = \<lparr>ID = ''b2'', Content = ''restart the worker'', Type = TypeGeneral,
          TopicKey = [], Tags = None, Trust = TrustValidated,
          Metadata = \<lparr>Source = [], Project = [], Author = [], ExtraData = []\<rparr>,
          CreatedAt = 1700000000000000000, UpdatedAt = 1700000000000000000, AccessCnt = 0\<rparr>,
       Score = 39 / 50, MatchType = ''hybrid''\<rparr>]"

text \<open>
  Two stores under the topic key \<open>a/b\<close>, a minute apart, on a new database: the
  memories they return and the stores they leave.
\<close>

definition topic_options :: StoreOptions where
  "topic_options = no_options\<lparr>sTopicKey := ''a/b''\<rparr>"

definition later_env :: env where
  "later_env = example_env\<lparr>generateID := ''b2'', timeNow := \<lambda>n. 1700000060000000000 + n\<rparr>"

definition memory_v1 :: Memory where
  "memory_v1 =
     \<lparr>ID = ''a1'', Content = ''v1'', Type = TypeGeneral, TopicKey = ''a/b'', Tags = None,
      Trust = TrustProposed,
      Metadata = \<lparr>Source = [], Project = [], Author = [], ExtraData = []\<rparr>,
      CreatedAt = 1700000000000000000, UpdatedAt = 1700000000000000001, AccessCnt = 0\<rparr>"

definition memory_v2 :: Memory where
  "memory_v2 = memory_v1\<lparr>Content := ''v2'', UpdatedAt := 1700000060000000000\<rparr>"

definition topic_v1 :: DB where
  "topic_v1 = fst (snd (Store example_env (New empty_file) ''v1'' topic_options))"

definition topic_v2 :: DB where
  "topic_v2 = fst (snd (Store later_env topic_v1 ''v2'' topic_options))"

section \<open>Properties\<close>

lemma le_bytes_inverse:
  fixes w :: "32 word"
  shows "ucast (ucast w :: 8 word) OR push_bit 8 (ucast (ucast (drop_bit 8 w) :: 8 word))
     OR push_bit 16 (ucast (ucast (drop_bit 16 w) :: 8 word))
     OR push_bit 24 (ucast (ucast (drop_bit 24 w) :: 8 word)) = w"
proof (rule bit_word_eqI)
  fix n :: nat
  assume n: "n < LENGTH(32)"
  consider "n < 8" | "8 \<le> n" "n < 16" | "16 \<le> n" "n < 24" | "24 \<le> n"
    by linarith
  then show "bit (ucast (ucast w :: 8 word) OR push_bit 8 (ucast (ucast (drop_bit 8 w) :: 8 word))
     OR push_bit 16 (ucast (ucast (drop_bit 16 w) :: 8 word))
     OR push_bit 24 (ucast (ucast (drop_bit 24 w) :: 8 word)) :: 32 word) n = bit w n"
    using n by cases (auto simp add: bit_simps)
qed

lemma bytesToFloat32_float32ToBytes: "bytesToFloat32 (float32ToBytes v) = v"
  by (induction v) (simp_all add: le_bytes_inverse)

lemma find_upsert_embedding:
  "find (\<lambda>row. e_memory_id row = e_memory_id new) (upsert_embedding new rows) = Some new"
proof (cases "e_memory_id new \<in> set (map e_memory_id rows)")
  case True
  then have "find (\<lambda>row. e_memory_id row = e_memory_id new)
      (map (\<lambda>old. if e_memory_id old = e_memory_id new then new else old) rows) = Some new"
    by (induction rows) auto
  with True show ?thesis by (simp add: upsert_embedding_def)
next
  case False
  then have "find (\<lambda>row. e_memory_id row = e_memory_id new) (rows @ [new]) = Some new"
    by (induction rows) auto
  with False show ?thesis by (simp add: upsert_embedding_def)
qed

lemma embeddings_SaveEmbedding:
  assumes "\<not> fails e SaveEmbeddingStmt"
    and "foreign_keys db \<longrightarrow> i \<in> set (map m_id (memories db))"
  shows "embeddings (snd (SaveEmbedding e db i v mdl)) =
     upsert_embedding \<lparr>e_memory_id = i, e_embedding = float32ToBytes v, e_model = mdl,
        e_created_at = format_RFC3339 (time_Now e)\<rparr> (embeddings db)"
  using assms by (auto simp add: SaveEmbedding_def Let_def)

text \<open>
  Claim C9. Writing a vector with \<open>SaveEmbedding\<close> and reading it with \<open>GetEmbedding\<close>
  gives the same bit patterns back: \<open>bytesToFloat32\<close> undoes \<open>float32ToBytes\<close>, and
  where the cache statement and the read do not fail (and the memory exists when foreign
  keys are enforced) the read returns the vector written, whatever becomes of the index
  entry.
\<close>

theorem embedding_round_trip:
  assumes "\<not> fails e SaveEmbeddingStmt"
    and "foreign_keys db \<longrightarrow> i \<in> set (map m_id (memories db))"
    and "\<not> fails e' GetEmbeddingStmt"
  shows "bytesToFloat32 (float32ToBytes v) = v \<and>
     GetEmbedding e' (snd (SaveEmbedding e db i v mdl)) i = Inr (Some v)"
proof -
  let ?new = "\<lparr>e_memory_id = i, e_embedding = float32ToBytes v, e_model = mdl,
        e_created_at = format_RFC3339 (time_Now e)\<rparr>"
  have "find (\<lambda>row. e_memory_id row = i) (embeddings (snd (SaveEmbedding e db i v mdl))) = Some ?new"
    using find_upsert_embedding [of ?new "embeddings db"] embeddings_SaveEmbedding [OF assms(1,2)]
    by simp
  then show ?thesis
    using assms(3) by (simp add: GetEmbedding_def bytesToFloat32_float32ToBytes)
qed

lemma GetMemory_fts5 [simp]: "GetMemory (e\<lparr>fts5_match := f\<rparr>) db i = GetMemory e db i"
  by (simp add: GetMemory_def)

lemma IncrementAccessCount_fts5 [simp]:
  "IncrementAccessCount (e\<lparr>fts5_match := f\<rparr>) db i = IncrementAccessCount e db i"
  by (simp add: IncrementAccessCount_def)

lemma recall_loop_fts5:
  "recall_loop (e\<lparr>fts5_match := f\<rparr>) ms K vrs seen results db = recall_loop e ms K vrs seen results db"
  by (induction vrs arbitrary: seen results db) (simp_all split: sum.splits option.splits)

lemma Recall_Inl_Embed:
  "Embed e query = Inl err \<Longrightarrow> Recall e db query opts = (Inl (FailedToEmbedQuery err), db)"
  by (simp add: Recall_def)

lemma Recall_Inl_VectorSearch:
  "Embed e query = Inr queryEmb \<Longrightarrow>
   VectorSearch e db queryEmb (go_int (Limit (with_defaults opts) * 2))
      (TrustLevels (with_defaults opts)) = Inl err \<Longrightarrow>
   Recall e db query opts = (Inl (VectorSearchFailed err), db)"
  by (simp add: Recall_def Let_def)

lemma Recall_Inr_VectorSearch:
  assumes "Embed e query = Inr queryEmb"
    and "VectorSearch e db queryEmb (go_int (Limit (with_defaults opts) * 2))
      (TrustLevels (with_defaults opts)) = Inr vecResults"
  shows "Recall e db query opts =
     (let loop = recall_loop e (MinScore (with_defaults opts))
                   (keyword_hits e db query (go_int (Limit (with_defaults opts) * 2)))
                   vecResults {} [] db
      in if int (length (fst loop)) > Limit (with_defaults opts)
         then (if Limit (with_defaults opts) < 0 then (Inl SliceBoundsOutOfRange, snd loop)
               else (Inr (take (nat (Limit (with_defaults opts))) (fst loop)), snd loop))
         else (Inr (fst loop), snd loop))"
  using assms by (simp add: Recall_def Let_def keyword_hits_def)


text \<open>
  The failures \<open>Recall\<close> handles as the specification says: an error of the provider
  and an error \<open>VectorSearch\<close> returns end the call with an error, no result and the
  database as it was; an error \<open>FTSSearch\<close> returns leaves the keyword hit set empty
  and the call returns what it returns with a keyword index that finds nothing; with
  a limit that is not negative it returns results.
\<close>

lemma Recall_failure_paths:
  "(Embed e query = Inl err \<longrightarrow> Recall e db query opts = (Inl (FailedToEmbedQuery err), db)) \<and>
   (Embed e query = Inr queryEmb \<and>
    VectorSearch e db queryEmb (go_int (Limit (with_defaults opts) * 2))
      (TrustLevels (with_defaults opts)) = Inl err
    \<longrightarrow> Recall e db query opts = (Inl (VectorSearchFailed err), db)) \<and>
   (FTSSearch e db query (go_int (Limit (with_defaults opts) * 2)) = Inl err
    \<longrightarrow> keyword_hits e db query (go_int (Limit (with_defaults opts) * 2)) = {} \<and>
        Recall e db query opts = Recall (e\<lparr>fts5_match := \<lambda>rows q. Stepped [] None\<rparr>) db query opts) \<and>
   (Embed e query = Inr queryEmb \<and>
    VectorSearch e db queryEmb (go_int (Limit (with_defaults opts) * 2))
      (TrustLevels (with_defaults opts)) = Inr vecResults \<and> 0 \<le> Limit opts
    \<longrightarrow> (\<exists>results. fst (Recall e db query opts) = Inr results))"
proof (intro conjI impI)
  assume "Embed e query = Inl err"
  then show "Recall e db query opts = (Inl (FailedToEmbedQuery err), db)"
    by (rule Recall_Inl_Embed)
next
  assume "Embed e query = Inr queryEmb \<and>
    VectorSearch e db queryEmb (go_int (Limit (with_defaults opts) * 2))
      (TrustLevels (with_defaults opts)) = Inl err"
  then show "Recall e db query opts = (Inl (VectorSearchFailed err), db)"
    by (simp add: Recall_Inl_VectorSearch)
next
  assume "FTSSearch e db query (go_int (Limit (with_defaults opts) * 2)) = Inl err"
  then show "keyword_hits e db query (go_int (Limit (with_defaults opts) * 2)) = {}"
    by (simp add: keyword_hits_def)
next
  let ?e = "e\<lparr>fts5_match := \<lambda>rows q. Stepped [] None\<rparr>"
  let ?n = "go_int (Limit (with_defaults opts) * 2)"
  assume f: "FTSSearch e db query ?n = Inl err"
  have k: "keyword_hits ?e db query ?n = keyword_hits e db query ?n"
    using f by (simp add: keyword_hits_def FTSSearch_def sql_limit_def)
  show "Recall e db query opts = Recall ?e db query opts"
  proof (cases "Embed e query")
    case (Inl err')
    then show ?thesis by (simp add: Recall_Inl_Embed)
  next
    case (Inr queryEmb')
    show ?thesis
    proof (cases "VectorSearch e db queryEmb' ?n (TrustLevels (with_defaults opts))")
      case (Inl err')
      then have "VectorSearch ?e db queryEmb' ?n (TrustLevels (with_defaults opts)) = Inl err'"
        by (simp add: VectorSearch_def)
      with Inl Inr show ?thesis
        using Recall_Inl_VectorSearch [of e query queryEmb' db opts err']
          Recall_Inl_VectorSearch [of ?e query queryEmb' db opts err']
        by simp
    next
      case hits: (Inr vecResults')
      then have "VectorSearch ?e db queryEmb' ?n (TrustLevels (with_defaults opts)) = Inr vecResults'"
        by (simp add: VectorSearch_def)
      with hits Inr show ?thesis
        using Recall_Inr_VectorSearch [of e query queryEmb' db opts vecResults']
          Recall_Inr_VectorSearch [of ?e query queryEmb' db opts vecResults']
        unfolding k recall_loop_fts5 by simp
    qed
  qed
next
  assume a: "Embed e query = Inr queryEmb \<and>
    VectorSearch e db queryEmb (go_int (Limit (with_defaults opts) * 2))
      (TrustLevels (with_defaults opts)) = Inr vecResults \<and> 0 \<le> Limit opts"
  then have "0 \<le> Limit (with_defaults opts)"
    by (simp add: with_defaults_def Let_def)
  with a show "\<exists>results. fst (Recall e db query opts) = Inr results"
    using Recall_Inr_VectorSearch [of e query queryEmb db opts vecResults]
    by (simp add: Let_def)
qed

lemma memories_SaveEmbedding [simp]:
  "memories (snd (SaveEmbedding e db i v mdl)) = memories db"
  by (simp add: SaveEmbedding_def Let_def)

text \<open>
  Claim C8. Where the write of the record succeeds, \<open>Store\<close> returns the memory it
  saved, whatever the provider and the embedding write do; the \<open>memories\<close> table
  is the one the write of the record left; a failure of the provider or of the
  embedding write is one warning in the log.
\<close>

theorem store_embedding_best_effort:
  assumes "fst (SaveMemory e db (store_memory e db content opts)) = Inr ()"
  shows "fst (Store e db content opts) = Inr (store_memory e db content opts) \<and>
     memories (fst (snd (Store e db content opts))) =
       memories (snd (SaveMemory e db (store_memory e db content opts))) \<and>
     (\<forall>err. Embed e content = Inl err \<longrightarrow>
        snd (Store e db content opts) =
          (snd (SaveMemory e db (store_memory e db content opts)),
           [FailedToGenerateEmbedding err])) \<and>
     (\<forall>embedding err. Embed e content = Inr embedding \<and>
        fst (SaveEmbedding e (snd (SaveMemory e db (store_memory e db content opts)))
              (ID (store_memory e db content opts)) embedding (Model e)) = Inl err \<longrightarrow>
        snd (snd (Store e db content opts)) = [FailedToSaveEmbedding err])"
proof -
  let ?m = "store_memory e db content opts"
  obtain db1 where s: "SaveMemory e db ?m = (Inr (), db1)"
    using assms by (cases "SaveMemory e db ?m") auto
  show ?thesis
  proof (cases "Embed e content")
    case (Inl err)
    then show ?thesis using s by (simp add: Store_def)
  next
    case (Inr embedding)
    obtain r db2 where t: "SaveEmbedding e db1 (ID ?m) embedding (Model e) = (r, db2)"
      by (cases "SaveEmbedding e db1 (ID ?m) embedding (Model e)")
    have m: "memories db2 = memories db1"
      using memories_SaveEmbedding [of e db1 "ID ?m" embedding "Model e"] t by simp
    show ?thesis using s Inr t m by (cases r) (simp_all add: Store_def)
  qed
qed

lemma with_defaults_rTags:
  "with_defaults (opts\<lparr>rTags := t\<rparr>) = (with_defaults opts)\<lparr>rTags := t\<rparr>"
  by (simp add: with_defaults_def Let_def)

lemma with_defaults_rTags_sel:
  "Limit (with_defaults (opts\<lparr>rTags := t\<rparr>)) = Limit (with_defaults opts)"
  "MinScore (with_defaults (opts\<lparr>rTags := t\<rparr>)) = MinScore (with_defaults opts)"
  "TrustLevels (with_defaults (opts\<lparr>rTags := t\<rparr>)) = TrustLevels (with_defaults opts)"
  by (simp_all add: with_defaults_rTags)

lemma list_conditions_rTags: "list_conditions (opts\<lparr>rTags := t\<rparr>) = list_conditions opts"
  by (rule ext) (simp add: list_conditions_def)

text \<open>
  Claim C10. The \<open>Tags\<close> field of the recall options changes no result: \<open>Recall\<close>
  and \<open>List\<close> return the same for options that differ in it only.
\<close>

theorem recall_list_ignore_tags:
  "Recall e db query (opts\<lparr>rTags := t\<rparr>) = Recall e db query opts \<and>
   List_memories e db (opts\<lparr>rTags := t\<rparr>) = List_memories e db opts"
proof
  show "List_memories e db (opts\<lparr>rTags := t\<rparr>) = List_memories e db opts"
    by (simp add: List_memories_def ListMemories_def list_conditions_rTags)
  show "Recall e db query (opts\<lparr>rTags := t\<rparr>) = Recall e db query opts"
  proof (cases "Embed e query")
    case (Inl err)
    then show ?thesis by (simp add: Recall_Inl_Embed)
  next
    case (Inr queryEmb)
    show ?thesis
    proof (cases "VectorSearch e db queryEmb (go_int (Limit (with_defaults opts) * 2))
        (TrustLevels (with_defaults opts))")
      case (Inl err)
      then show ?thesis
        using Inr Recall_Inl_VectorSearch [of e query queryEmb db opts err]
          Recall_Inl_VectorSearch [of e query queryEmb db "opts\<lparr>rTags := t\<rparr>" err]
        unfolding with_defaults_rTags_sel by simp
    next
      case hits: (Inr vecResults)
      then show ?thesis
        using Inr Recall_Inr_VectorSearch [of e query queryEmb db opts vecResults]
          Recall_Inr_VectorSearch [of e query queryEmb db "opts\<lparr>rTags := t\<rparr>" vecResults]
        unfolding with_defaults_rTags_sel by simp
    qed
  qed
qed


lemma length_example_vector: "length example_vector = 1536"
  by (simp add: example_vector_def)

lemma one_proposed_eq:
  "one_proposed =
     \<lparr>foreign_keys = False,
      memories = [\<lparr>m_id = ''a1'', m_content = ''apply fix'', m_type = ''general'',
         m_topic_key = [], m_tags = None, m_trust = ''proposed'',
         m_metadata = \<lparr>Source = [], Project = [], Author = [], ExtraData = []\<rparr>,
         m_created_at = 1700000000, m_updated_at = 1700000000, m_access_count = 0\<rparr>],
      relations = [],
      embeddings = [\<lparr>e_memory_id = ''a1'', e_embedding = float32ToBytes example_vector,
         e_model = ''text-embedding-3-small'', e_created_at = 1700000000\<rparr>],
      vec_memories = [\<lparr>v_memory_id = ''a1'', v_embedding = example_vector\<rparr>]\<rparr>"
  by (simp add: one_proposed_def Store_def store_memory_def example_env_def New_def
      empty_file_def no_options_def SaveMemory_def row_values_def SaveEmbedding_def upsert_memory_def
      upsert_embedding_def length_example_vector dsn_def dsn_foreign_keys_def
      TypeGeneral_def TrustProposed_def format_RFC3339_def Let_def)

theorem embedding_round_trip_witness:
  "\<not> fails example_env SaveEmbeddingStmt \<and> \<not> foreign_keys (New empty_file) \<and>
   \<not> fails example_env GetEmbeddingStmt \<and>
   bytesToFloat32 (float32ToBytes [0x3F800000, 0xC0490FDB]) = [0x3F800000, 0xC0490FDB] \<and>
   GetEmbedding example_env
     (snd (SaveEmbedding example_env (New empty_file) ''a1'' [0x3F800000, 0xC0490FDB] ''m''))
     ''a1'' = Inr (Some [0x3F800000, 0xC0490FDB])"
  using embedding_round_trip [of example_env "New empty_file" "''a1''" example_env
      "[0x3F800000, 0xC0490FDB]" "''m''"]
  by (simp add: example_env_def New_def empty_file_def dsn_def dsn_foreign_keys_def)

theorem recall_list_ignore_tags_witness:
  "Recall example_env one_proposed ''apply fix'' (default_options\<lparr>rTags := Some [''go'']\<rparr>) =
     Recall example_env one_proposed ''apply fix'' default_options \<and>
   List_memories example_env one_proposed (default_options\<lparr>rTags := Some [''go'']\<rparr>) =
     List_memories example_env one_proposed default_options"
  using recall_list_ignore_tags [where e = example_env and db = one_proposed and query = "''apply fix''"
      and opts = default_options and t = "Some [''go'']"]
  by simp

theorem store_embedding_best_effort_witness:
  "fst (SaveMemory (example_env\<lparr>Embed := \<lambda>text. Inl Provider\<rparr>) (New empty_file)
      (store_memory (example_env\<lparr>Embed := \<lambda>text. Inl Provider\<rparr>) (New empty_file)
         ''apply fix'' no_options)) = Inr () \<and>
   fst (Store (example_env\<lparr>Embed := \<lambda>text. Inl Provider\<rparr>) (New empty_file) ''apply fix''
      no_options) =
     Inr (store_memory (example_env\<lparr>Embed := \<lambda>text. Inl Provider\<rparr>) (New empty_file)
         ''apply fix'' no_options) \<and>
   memories (fst (snd (Store (example_env\<lparr>Embed := \<lambda>text. Inl Provider\<rparr>) (New empty_file)
      ''apply fix'' no_options))) = memories one_proposed \<and>
   snd (snd (Store (example_env\<lparr>Embed := \<lambda>text. Inl Provider\<rparr>) (New empty_file)
      ''apply fix'' no_options)) = [FailedToGenerateEmbedding Provider]"
  using store_embedding_best_effort [of "example_env\<lparr>Embed := \<lambda>text. Inl Provider\<rparr>" "New empty_file"
      "''apply fix''" no_options]
  by (simp add: one_proposed_eq example_env_def SaveMemory_def row_values_def store_memory_def New_def
      empty_file_def no_options_def upsert_memory_def dsn_def dsn_foreign_keys_def
      TypeGeneral_def TrustProposed_def format_RFC3339_def Let_def)

subsection \<open>The loop of recall\<close>

lemma GetMemory_ID: "GetMemory e db i = Inr (Some memory) \<Longrightarrow> ID memory = i"
proof -
  assume a: "GetMemory e db i = Inr (Some memory)"
  then obtain row where r: "find (\<lambda>row. m_id row = i) (memories db) = Some row"
    and m: "memory = scanMemory row"
    by (auto simp add: GetMemory_def split: if_splits)
  from r have "m_id row = i"
    by (auto simp add: find_Some_iff)
  with m show ?thesis by (simp add: scanMemory_def)
qed

lemma find_increment_other:
  "i \<noteq> j \<Longrightarrow>
   find (\<lambda>row. m_id row = i)
     (map (\<lambda>row. if m_id row = j then row\<lparr>m_access_count := m_access_count row + 1\<rparr> else row) rows)
   = find (\<lambda>row. m_id row = i) rows"
  by (induction rows) auto

lemma GetMemory_IncrementAccessCount:
  "i \<noteq> j \<Longrightarrow> GetMemory e (snd (IncrementAccessCount e db j)) i = GetMemory e db i"
  by (simp add: GetMemory_def IncrementAccessCount_def find_increment_other)

lemma recall_loop_results:
  assumes "\<forall>i. i \<notin> seen \<longrightarrow> GetMemory e db i = GetMemory e db0 i"
  shows "fst (recall_loop e minScore ftsSet vecResults seen results db) =
     results @ List.map_filter (hit_result e db0 minScore ftsSet) (dedup_hits seen vecResults)"
  using assms
proof (induction vecResults arbitrary: seen results db)
  case Nil
  then show ?case by (simp add: List.map_filter_simps)
next
  case (Cons vr vecResults)
  show ?case
  proof (cases "fst vr \<in> seen")
    case True
    then show ?thesis using Cons.IH [OF Cons.prems] by simp
  next
    case False
    then have g: "GetMemory e db (fst vr) = GetMemory e db0 (fst vr)"
      using Cons.prems by simp
    have inv: "\<forall>i. i \<notin> insert (fst vr) seen \<longrightarrow> GetMemory e db i = GetMemory e db0 i"
      using Cons.prems by simp
    show ?thesis
    proof (cases "hit_result e db0 minScore ftsSet vr")
      case None
      then have "fst (recall_loop e minScore ftsSet (vr # vecResults) seen results db) =
          fst (recall_loop e minScore ftsSet vecResults (insert (fst vr) seen) results db)"
        using False g by (auto simp add: hit_result_def split: sum.splits option.splits if_splits)
      then show ?thesis
        using Cons.IH [OF inv] False None by (simp add: List.map_filter_simps)
    next
      case (Some r)
      then obtain memory where m: "GetMemory e db0 (fst vr) = Inr (Some memory)"
        and s: "\<not> finalScore ftsSet vr < minScore"
        and r: "r = \<lparr>Memory = memory, Score = finalScore ftsSet vr, MatchType = ''hybrid''\<rparr>"
        by (auto simp add: hit_result_def split: sum.splits option.splits if_splits)
      have i: "ID memory = fst vr" using m by (rule GetMemory_ID)
      have inv': "\<forall>i. i \<notin> insert (fst vr) seen \<longrightarrow>
          GetMemory e (snd (IncrementAccessCount e db (ID memory))) i = GetMemory e db0 i"
        using inv i by (simp add: GetMemory_IncrementAccessCount)
      have "fst (recall_loop e minScore ftsSet (vr # vecResults) seen results db) =
          fst (recall_loop e minScore ftsSet vecResults (insert (fst vr) seen) (results @ [r])
                 (snd (IncrementAccessCount e db (ID memory))))"
        using False g m s r by simp
      then show ?thesis
        using Cons.IH [OF inv'] False Some by (simp add: List.map_filter_simps)
    qed
  qed
qed

lemma Recall_results:
  assumes "Recall e db query opts = (Inr results, db')"
    and "Embed e query = Inr queryEmb"
    and "VectorSearch e db queryEmb (go_int (Limit (with_defaults opts) * 2))
      (TrustLevels (with_defaults opts)) = Inr vecResults"
  shows "results = take (nat (Limit (with_defaults opts)))
     (List.map_filter
        (hit_result e db (MinScore (with_defaults opts))
           (keyword_hits e db query (go_int (Limit (with_defaults opts) * 2))))
        (dedup_hits {} vecResults))"
    and "int (length results) \<le> Limit (with_defaults opts)"
proof -
  let ?all = "List.map_filter
        (hit_result e db (MinScore (with_defaults opts))
           (keyword_hits e db query (go_int (Limit (with_defaults opts) * 2))))
        (dedup_hits {} vecResults)"
  have l: "fst (recall_loop e (MinScore (with_defaults opts))
        (keyword_hits e db query (go_int (Limit (with_defaults opts) * 2))) vecResults {} [] db) = ?all"
    using recall_loop_results [where seen = "{}" and db = db and ?db0.0 = db and results = "[]"]
    by simp
  have r: "(if int (length ?all) > Limit (with_defaults opts)
         then (if Limit (with_defaults opts) < 0 then Inl SliceBoundsOutOfRange
               else Inr (take (nat (Limit (with_defaults opts))) ?all))
         else Inr ?all) = Inr results"
    using Recall_Inr_VectorSearch [OF assms(2,3)] assms(1) l
    by (simp add: Let_def split: if_splits)
  show "results = take (nat (Limit (with_defaults opts))) ?all"
    using r by (auto split: if_splits)
  then show "int (length results) \<le> Limit (with_defaults opts)"
    using r by (auto split: if_splits)
qed


lemma Recall_Inr_obtains:
  assumes "Recall e db query opts = (Inr results, db')"
  obtains queryEmb vecResults where "Embed e query = Inr queryEmb"
    and "VectorSearch e db queryEmb (go_int (Limit (with_defaults opts) * 2))
      (TrustLevels (with_defaults opts)) = Inr vecResults"
proof (cases "Embed e query")
  case (Inl err)
  then show ?thesis using assms by (simp add: Recall_Inl_Embed)
next
  case (Inr queryEmb)
  show ?thesis
  proof (cases "VectorSearch e db queryEmb (go_int (Limit (with_defaults opts) * 2))
      (TrustLevels (with_defaults opts))")
    case (Inl err)
    then show ?thesis using assms Inr by (simp add: Recall_Inl_VectorSearch)
  next
    case hits: (Inr vecResults)
    then show ?thesis using Inr that by blast
  qed
qed

lemma in_map_filter: "r \<in> set (List.map_filter f xs) \<Longrightarrow> \<exists>x \<in> set xs. f x = Some r"
  by (auto simp add: List.map_filter_def)

lemma hit_result_Some:
  assumes "hit_result e db minScore ftsSet vr = Some r"
  shows "Score r = finalScore ftsSet vr" and "minScore \<le> Score r" and "ID (Memory r) = fst vr"
    and "fetched e db (fst vr)"
proof -
  obtain memory where m: "GetMemory e db (fst vr) = Inr (Some memory)"
    and s: "\<not> finalScore ftsSet vr < minScore"
    and r: "r = \<lparr>Memory = memory, Score = finalScore ftsSet vr, MatchType = ''hybrid''\<rparr>"
    using assms by (auto simp add: hit_result_def split: sum.splits option.splits if_splits)
  show "Score r = finalScore ftsSet vr" using r by simp
  show "minScore \<le> Score r" using r s by simp
  show "ID (Memory r) = fst vr" using r GetMemory_ID [OF m] by simp
  show "fetched e db (fst vr)" using m by (simp add: fetched_def)
qed

lemma hit_result_None:
  "hit_result e db minScore ftsSet vr = None \<longleftrightarrow>
     \<not> (fetched e db (fst vr) \<and> minScore \<le> finalScore ftsSet vr)"
  by (auto simp add: hit_result_def fetched_def split: sum.splits option.splits)

lemma dedup_hits_not_seen: "vr \<in> set (dedup_hits seen hits) \<Longrightarrow> fst vr \<notin> seen"
  by (induction hits arbitrary: seen) (auto split: if_splits)

lemma dedup_hits_map_of:
  "vr \<in> set (dedup_hits seen hits) \<Longrightarrow> map_of hits (fst vr) = Some (snd vr)"
proof (induction hits arbitrary: seen)
  case Nil
  then show ?case by simp
next
  case (Cons h hits)
  obtain i d where h: "h = (i, d)" by (cases h)
  show ?case
  proof (cases "i \<in> seen")
    case True
    then have v: "vr \<in> set (dedup_hits seen hits)" using Cons.prems h by simp
    then have "fst vr \<noteq> i" using True dedup_hits_not_seen by blast
    then show ?thesis using Cons.IH [OF v] h by simp
  next
    case False
    then consider "vr = h" | "vr \<in> set (dedup_hits (insert i seen) hits)"
      using Cons.prems h by auto
    then show ?thesis
    proof cases
      case 1
      then show ?thesis using h by simp
    next
      case 2
      then have "fst vr \<noteq> i" using dedup_hits_not_seen by blast
      then show ?thesis using Cons.IH [OF 2] h by simp
    qed
  qed
qed

lemma semanticScore_clamp: "0 \<le> d \<Longrightarrow> semanticScore d = clamp (1 - d / 2) 0 1"
  by (simp add: semanticScore_def clamp_def Let_def max_def min_def)

lemma finalScore_spec:
  "0 \<le> d \<Longrightarrow> finalScore ftsSet (i, d) = spec_score d (i \<in> ftsSet)"
  by (simp add: finalScore_def spec_score_def keywordBoost_def semanticScore_clamp)

lemma map_ID_map_filter:
  "map (\<lambda>r. ID (Memory r)) (List.map_filter (hit_result e db minScore ftsSet) hits) =
   map fst (filter (\<lambda>vr. fetched e db (fst vr) \<and> minScore \<le> finalScore ftsSet vr) hits)"
proof (induction hits)
  case Nil
  then show ?case by (simp add: List.map_filter_simps)
next
  case (Cons vr hits)
  show ?case
  proof (cases "hit_result e db minScore ftsSet vr")
    case None
    then show ?thesis using Cons.IH hit_result_None [of e db minScore ftsSet vr]
      by (simp add: List.map_filter_simps)
  next
    case (Some r)
    then have "fetched e db (fst vr) \<and> minScore \<le> finalScore ftsSet vr"
      using hit_result_None [of e db minScore ftsSet vr] by simp
    then show ?thesis using Cons.IH Some hit_result_Some(3) [OF Some]
      by (simp add: List.map_filter_simps)
  qed
qed

text \<open>
  Claim C6. \<open>Recall\<close> returns at most \<open>limit\<close> results (5 when the limit is 0), each
  with a score of at least \<open>minScore\<close> (0.3 when it is 0).
\<close>

theorem recall_limit_and_threshold:
  assumes "Recall e db query opts = (Inr results, db')"
  shows "int (length results) \<le> (if Limit opts = 0 then 5 else Limit opts) \<and>
     (\<forall>r \<in> set results. (if MinScore opts = 0 then 0.3 else MinScore opts) \<le> Score r)"
proof -
  obtain queryEmb vecResults where e: "Embed e query = Inr queryEmb"
    and v: "VectorSearch e db queryEmb (go_int (Limit (with_defaults opts) * 2))
      (TrustLevels (with_defaults opts)) = Inr vecResults"
    using assms by (rule Recall_Inr_obtains)
  have l: "Limit (with_defaults opts) = (if Limit opts = 0 then 5 else Limit opts)"
    and m: "MinScore (with_defaults opts) = (if MinScore opts = 0 then 0.3 else MinScore opts)"
    by (simp_all add: with_defaults_def Let_def)
  have "\<forall>r \<in> set results. MinScore (with_defaults opts) \<le> Score r"
  proof
    fix r assume "r \<in> set results"
    then have "r \<in> set (take (nat (Limit (with_defaults opts))) (List.map_filter
        (hit_result e db (MinScore (with_defaults opts))
           (keyword_hits e db query (go_int (Limit (with_defaults opts) * 2))))
        (dedup_hits {} vecResults)))"
      using Recall_results(1) [OF assms e v] by simp
    then have "r \<in> set (List.map_filter
        (hit_result e db (MinScore (with_defaults opts))
           (keyword_hits e db query (go_int (Limit (with_defaults opts) * 2))))
        (dedup_hits {} vecResults))"
      by (rule in_set_takeD)
    then obtain vr where "hit_result e db (MinScore (with_defaults opts))
        (keyword_hits e db query (go_int (Limit (with_defaults opts) * 2))) vr = Some r"
      by (auto dest: in_map_filter)
    then show "MinScore (with_defaults opts) \<le> Score r"
      by (rule hit_result_Some(2))
  qed
  then show ?thesis
    using Recall_results(2) [OF assms e v] unfolding l m by simp
qed

text \<open>
  Claim C4. A result of \<open>Recall\<close> comes from the first vector-search hit of its
  identifier; for the distance \<open>d\<close> of that hit, an L2 distance and so not negative,
  its score is \<open>0.7 * clamp(1 - d/2, 0, 1) + b\<close> with \<open>b = 0.15\<close> when the identifier
  is a keyword hit and \<open>b = 0\<close> otherwise. The boost is added to the weighted
  similarity: a keyword hit at distance 0 scores above 0.7.
\<close>

theorem recall_final_score:
  assumes "Recall e db query opts = (Inr results, db')"
    and "Embed e query = Inr queryEmb"
    and "VectorSearch e db queryEmb (go_int (Limit (with_defaults opts) * 2))
      (TrustLevels (with_defaults opts)) = Inr vecResults"
    and "r \<in> set results"
  shows "(\<exists>d. map_of vecResults (ID (Memory r)) = Some d \<and>
        (0 \<le> d \<longrightarrow>
           Score r = spec_score d
             (ID (Memory r) \<in> keyword_hits e db query (go_int (Limit (with_defaults opts) * 2))))) \<and>
     7 / 10 < finalScore {i} (i, 0)"
proof
  let ?K = "keyword_hits e db query (go_int (Limit (with_defaults opts) * 2))"
  have "r \<in> set (take (nat (Limit (with_defaults opts)))
        (List.map_filter (hit_result e db (MinScore (with_defaults opts)) ?K)
           (dedup_hits {} vecResults)))"
    using Recall_results(1) [OF assms(1,2,3)] assms(4) by simp
  then have "r \<in> set (List.map_filter (hit_result e db (MinScore (with_defaults opts)) ?K)
        (dedup_hits {} vecResults))"
    by (rule in_set_takeD)
  then obtain vr where vr: "vr \<in> set (dedup_hits {} vecResults)"
    and h: "hit_result e db (MinScore (with_defaults opts)) ?K vr = Some r"
    by (auto dest: in_map_filter)
  have i: "ID (Memory r) = fst vr" and s: "Score r = finalScore ?K vr"
    using hit_result_Some [OF h] by simp_all
  have "map_of vecResults (ID (Memory r)) = Some (snd vr)"
    using dedup_hits_map_of [OF vr] i by simp
  moreover have "0 \<le> snd vr \<longrightarrow> Score r = spec_score (snd vr) (ID (Memory r) \<in> ?K)"
    using finalScore_spec [of "snd vr" ?K "fst vr"] i s by simp
  ultimately show "\<exists>d. map_of vecResults (ID (Memory r)) = Some d \<and>
        (0 \<le> d \<longrightarrow> Score r = spec_score d (ID (Memory r) \<in> ?K))"
    by blast
  show "7 / 10 < finalScore {i} (i, 0)"
    by (simp add: finalScore_def semanticScore_def keywordBoost_def)
qed

text \<open>
  Claim C5, amended. The identifiers \<open>Recall\<close> returns are, in the order of the vector
  search, those of the hits without repetition whose record is fetched and whose score
  passes the threshold, cut to the limit.
\<close>

theorem recall_order:
  assumes "Recall e db query opts = (Inr results, db')"
    and "Embed e query = Inr queryEmb"
    and "VectorSearch e db queryEmb (go_int (Limit (with_defaults opts) * 2))
      (TrustLevels (with_defaults opts)) = Inr vecResults"
  shows "map (\<lambda>r. ID (Memory r)) results =
     take (nat (Limit (with_defaults opts)))
       (map fst
          (filter (\<lambda>vr. fetched e db (fst vr) \<and>
                        MinScore (with_defaults opts) \<le>
                          finalScore (keyword_hits e db query
                            (go_int (Limit (with_defaults opts) * 2))) vr)
             (dedup_hits {} vecResults)))"
proof -
  let ?K = "keyword_hits e db query (go_int (Limit (with_defaults opts) * 2))"
  let ?n = "nat (Limit (with_defaults opts))"
  let ?all = "List.map_filter (hit_result e db (MinScore (with_defaults opts)) ?K)
      (dedup_hits {} vecResults)"
  have "map (\<lambda>r. ID (Memory r)) results = map (\<lambda>r. ID (Memory r)) (take ?n ?all)"
    using Recall_results(1) [OF assms] by simp
  also have "\<dots> = take ?n (map (\<lambda>r. ID (Memory r)) ?all)"
    by (simp add: take_map)
  finally show ?thesis
    by (simp only: map_ID_map_filter)
qed

subsection \<open>Recall and delete on the example stores\<close>

lemma two_validated_eq:
  "two_validated =
     \<lparr>foreign_keys = False,
      memories =
        [\<lparr>m_id = ''a1'', m_content = ''retry the upload'', m_type = ''general'',
          m_topic_key = [], m_tags = None, m_trust = ''validated'',
          m_metadata = \<lparr>Source = [], Project = [], Author = [], ExtraData = []\<rparr>,
          m_created_at = 1700000000, m_updated_at = 1700000000, m_access_count = 0\<rparr>,
         \<lparr>m_id = ''b2'', m_content = ''restart the worker'', m_type = ''general'',
          m_topic_key = [], m_tags = None, m_trust = ''validated'',
          m_metadata = \<lparr>Source = [], Project = [], Author = [], ExtraData = []\<rparr>,
          m_created_at = 1700000000, m_updated_at = 1700000000, m_access_count = 0\<rparr>],
      relations = [],
      embeddings =
        [\<lparr>e_memory_id = ''a1'', e_embedding = float32ToBytes example_vector,
          e_model = ''text-embedding-3-small'', e_created_at = 1700000000\<rparr>,
         \<lparr>e_memory_id = ''b2'', e_embedding = float32ToBytes example_vector,
          e_model = ''text-embedding-3-small'', e_created_at = 1700000000\<rparr>],
      vec_memories =
        [\<lparr>v_memory_id = ''a1'', v_embedding = example_vector\<rparr>,
         \<lparr>v_memory_id = ''b2'', v_embedding = example_vector\<rparr>]\<rparr>"
  by (simp add: two_validated_def validated_options_def Store_def store_memory_def
      example_env_def New_def empty_file_def no_options_def SaveMemory_def row_values_def SaveEmbedding_def
      upsert_memory_def upsert_embedding_def length_example_vector dsn_def
      dsn_foreign_keys_def TypeGeneral_def TrustProposed_def TrustValidated_def
      format_RFC3339_def Let_def del: set_filter)

lemma recall_two:
  "fst (Recall ranked_env two_validated ''restart the worker'' default_options) = Inr two_results"
  by (simp add: two_validated_eq two_results_def ranked_env_def Recall_def with_defaults_def
      example_env_def VectorSearch_def FTSSearch_def exact_fts_def go_int_def sql_limit_def
      GetMemory_def scanMemory_def parse_RFC3339_def finalScore_def semanticScore_def
      keywordBoost_def IncrementAccessCount_def Let_def TrustValidated_def TrustProven_def
      TypeGeneral_def default_options_def)

lemma one_deleted_eq:
  "one_deleted =
     \<lparr>foreign_keys = False, memories = [], relations = [],
      embeddings = [\<lparr>e_memory_id = ''a1'', e_embedding = float32ToBytes example_vector,
         e_model = ''text-embedding-3-small'', e_created_at = 1700000000\<rparr>],
      vec_memories = [\<lparr>v_memory_id = ''a1'', v_embedding = example_vector\<rparr>]\<rparr>"
  by (simp add: one_deleted_def Delete_def DeleteMemory_def one_proposed_eq example_env_def)

text \<open>
  Claim C5 as it is stated fails on the store \<open>one_deleted\<close>: the vector search
  still returns the deleted \<open>a1\<close>, at distance 0, its score 0.7 passes the threshold
  0.3, so the hits whose score passes are \<open>[a1]\<close>; \<open>Recall\<close> does not fetch its
  record and returns nothing.
\<close>

theorem recall_order_counterexample:
  "Embed example_env ''apply fix'' = Inr example_vector \<and>
   VectorSearch example_env one_deleted example_vector 10 [TrustValidated, TrustProven] =
     Inr [(''a1'', 0)] \<and>
   spec_recall_ids 5 (3 / 10) (keyword_hits example_env one_deleted ''apply fix'' 10)
     [(''a1'', 0)] = [''a1''] \<and>
   fst (Recall example_env one_deleted ''apply fix'' default_options) = Inr []"
  by (simp add: one_deleted_eq example_env_def VectorSearch_def exact_knn_def keyword_hits_def
      FTSSearch_def exact_fts_def sql_limit_def spec_recall_ids_def finalScore_def
      semanticScore_def keywordBoost_def Recall_def with_defaults_def default_options_def
      go_int_def GetMemory_def Let_def)

lemma VectorSearch_stepping_error:
  "vec0_knn e (vec_memories db) queryEmb limit = Stepped results (Some err) \<Longrightarrow>
   VectorSearch e db queryEmb limit trustLevels = Inr results"
  by (simp add: VectorSearch_def)

text \<open>
  Claim C7 fails on the code where the vector search fails while its rows are stepped:
  \<open>recall --limit 3000\<close> asks the index for 6000 neighbours, the index raises its
  error, \<open>VectorSearch\<close> returns no row and no error, and \<open>Recall\<close> returns an
  empty result and no error.
\<close>

theorem recall_swallows_index_error:
  "Embed example_env ''restart the worker'' = Inr example_vector \<and>
   vec0_knn example_env (vec_memories two_validated) example_vector 6000 =
     Stepped [] (Some Storage) \<and>
   VectorSearch example_env two_validated example_vector 6000 [TrustValidated, TrustProven] =
     Inr [] \<and>
   Recall example_env two_validated ''restart the worker'' limit_3000 =
     (Inr [], two_validated)"
  by (simp add: limit_3000_def default_options_def Recall_def with_defaults_def go_int_def
      example_env_def VectorSearch_def exact_knn_def FTSSearch_def exact_fts_def sql_limit_def
      Let_def)

lemma VectorSearch_ignores_trust:
  "VectorSearch e db queryEmb limit trustLevels = VectorSearch e db queryEmb limit []"
  by (simp add: VectorSearch_def)

text \<open>
  Claim C2 fails on the code: \<open>VectorSearch\<close> does not read the trust levels, and
  \<open>Recall\<close> with the default options returns the proposed memory of the store
  \<open>one_proposed\<close>.
\<close>

theorem recall_default_returns_proposed:
  "fst (Recall example_env one_proposed ''apply fix'' default_options) =
     Inr [\<lparr>Memory = \<lparr>ID = ''a1'', Content = ''apply fix'', Type = TypeGeneral,
              TopicKey = [], Tags = None, Trust = TrustProposed,
              Metadata = \<lparr>Source = [], Project = [], Author = [], ExtraData = []\<rparr>,
              CreatedAt = 1700000000000000000, UpdatedAt = 1700000000000000000,
              AccessCnt = 0\<rparr>,
           Score = 17 / 20, MatchType = ''hybrid''\<rparr>]"
  by (simp add: one_proposed_eq Recall_def with_defaults_def example_env_def VectorSearch_def
      FTSSearch_def exact_knn_def exact_fts_def go_int_def sql_limit_def GetMemory_def
      scanMemory_def parse_RFC3339_def finalScore_def semanticScore_def keywordBoost_def
      IncrementAccessCount_def Let_def TrustValidated_def TrustProven_def TrustProposed_def
      TypeGeneral_def default_options_def)


lemma default_options_defaults:
  "go_int (5 * 2) = 10"
  "Limit (with_defaults default_options) = 5"
  "MinScore (with_defaults default_options) = 3 / 10"
  "TrustLevels (with_defaults default_options) = [TrustValidated, TrustProven]"
  by (simp_all add: with_defaults_def default_options_def go_int_def)

lemma ranked_premises:
  "Embed ranked_env ''restart the worker'' = Inr example_vector"
  "VectorSearch ranked_env two_validated example_vector 10 [TrustValidated, TrustProven] =
     Inr [(''a1'', 1 / 10), (''b2'', 1 / 5)]"
  "keyword_hits ranked_env two_validated ''restart the worker'' 10 = {''b2''}"
  by (simp_all add: ranked_env_def example_env_def VectorSearch_def keyword_hits_def
      FTSSearch_def exact_fts_def sql_limit_def two_validated_eq)

lemma recall_two_pair:
  "Recall ranked_env two_validated ''restart the worker'' default_options =
     (Inr two_results, snd (Recall ranked_env two_validated ''restart the worker'' default_options))"
  using recall_two by (metis prod.collapse)

theorem recall_limit_and_threshold_witness:
  "Recall ranked_env two_validated ''restart the worker'' default_options =
     (Inr two_results, snd (Recall ranked_env two_validated ''restart the worker'' default_options)) \<and>
   int (length two_results) \<le> 5 \<and>
   3 / 10 \<le> Score (hd two_results) \<and> 3 / 10 \<le> Score (last two_results)"
  using recall_limit_and_threshold [OF recall_two_pair] recall_two_pair
  by (simp add: default_options_def two_results_def)

theorem recall_final_score_witness:
  "Recall ranked_env two_validated ''restart the worker'' default_options =
     (Inr two_results, snd (Recall ranked_env two_validated ''restart the worker'' default_options)) \<and>
   last two_results \<in> set two_results \<and>
   map_of [(''a1'', 1 / 10), (''b2'', 1 / 5 :: real)] (ID (Memory (last two_results))) = Some (1 / 5) \<and>
   Score (last two_results) = spec_score (1 / 5) True \<and>
   7 / 10 < Score (last two_results)"
proof -
  have r: "last two_results \<in> set two_results"
    by (simp add: two_results_def)
  have i: "ID (Memory (last two_results)) = ''b2''"
    by (simp add: two_results_def)
  have "\<exists>d. map_of [(''a1'', 1 / 10), (''b2'', 1 / 5 :: real)] ''b2'' = Some d \<and>
      (0 \<le> d \<longrightarrow> Score (last two_results) = spec_score d (''b2'' \<in> {''b2''}))"
    using recall_final_score [OF recall_two_pair, unfolded default_options_defaults ranked_premises(3) i,
        OF ranked_premises(1) ranked_premises(2) r]
    unfolding i by blast
  then obtain d where m: "map_of [(''a1'', 1 / 10), (''b2'', 1 / 5 :: real)] ''b2'' = Some d"
    and s: "0 \<le> d \<longrightarrow> Score (last two_results) = spec_score d (''b2'' \<in> {''b2''})"
    by blast
  from m have "d = 1 / 5"
    by simp
  with s have "Score (last two_results) = spec_score (1 / 5) True"
    by simp
  moreover have "7 / 10 < Score (last two_results)"
    by (simp add: two_results_def)
  ultimately show ?thesis
    using recall_two_pair r i by simp
qed

lemma fetched_two:
  "fetched ranked_env two_validated ''a1''" "fetched ranked_env two_validated ''b2''"
  by (simp_all add: fetched_def GetMemory_def ranked_env_def example_env_def two_validated_eq)

theorem recall_order_witness:
  "Recall ranked_env two_validated ''restart the worker'' default_options =
     (Inr two_results, snd (Recall ranked_env two_validated ''restart the worker'' default_options)) \<and>
   map (\<lambda>r. ID (Memory r)) two_results = [''a1'', ''b2''] \<and>
   map Score two_results = [133 / 200, 39 / 50]"
proof -
  have "map (\<lambda>r. ID (Memory r)) two_results =
      take (nat 5) (map fst (filter (\<lambda>vr. fetched ranked_env two_validated (fst vr) \<and>
          3 / 10 \<le> finalScore {''b2''} vr)
        (dedup_hits {} [(''a1'', 1 / 10), (''b2'', 1 / 5)])))"
    using recall_order [OF recall_two_pair, unfolded default_options_defaults ranked_premises(3),
        OF ranked_premises(1) ranked_premises(2)] .
  then have "map (\<lambda>r. ID (Memory r)) two_results = [''a1'', ''b2'']"
    by (simp add: fetched_two finalScore_def semanticScore_def keywordBoost_def)
  then show ?thesis
    using recall_two_pair by (simp add: two_results_def)
qed

lemma two_related_eq:
  "two_related = two_validated\<lparr>relations :=
     [\<lparr>r_id = ''c3'', r_from_id = ''b2'', r_to_id = ''a1'', r_type = RelSolves, r_note = [],
       r_created_at = 1700000000\<rparr>]\<rparr>"
  by (simp add: two_related_def Relate_def GetMemory_def SaveRelation_def example_env_def
      two_validated_eq format_RFC3339_def)

text \<open>
  Claim C3 fails on the code: on a connection opened by \<open>New\<close> the delete of \<open>a1\<close>
  succeeds and \<open>get\<close> no longer finds it, and the relation \<open>b2 solves a1\<close> is still
  in the store.
\<close>

theorem delete_keeps_relations:
  "fst (Delete example_env two_related ''a1'') = Inr () \<and>
   Get example_env two_deleted ''a1'' = Inr None \<and>
   relations two_deleted =
     [\<lparr>r_id = ''c3'', r_from_id = ''b2'', r_to_id = ''a1'', r_type = RelSolves, r_note = [],
       r_created_at = 1700000000\<rparr>]"
  by (simp add: two_deleted_def Delete_def DeleteMemory_def Get_def GetMemory_def
      two_related_eq two_validated_eq example_env_def)

lemma Get_after_Delete:
  assumes "fst (Delete e db i) = Inr ()" and "\<not> fails e' (GetMemoryStmt i)"
  shows "Get e' (snd (Delete e db i)) i = Inr None"
proof -
  have "find (\<lambda>row. m_id row = i) (filter (\<lambda>row. m_id row \<noteq> i) (memories db)) = None"
    by (simp add: find_None_iff)
  then show ?thesis
    using assms by (simp add: Get_def GetMemory_def Delete_def DeleteMemory_def split: if_splits)
qed

lemma Recall_only_fetched:
  assumes "Recall e db query opts = (Inr results, db')" and "r \<in> set results"
  shows "fetched e db (ID (Memory r))"
proof -
  obtain queryEmb vecResults where e: "Embed e query = Inr queryEmb"
    and v: "VectorSearch e db queryEmb (go_int (Limit (with_defaults opts) * 2))
      (TrustLevels (with_defaults opts)) = Inr vecResults"
    using assms(1) by (rule Recall_Inr_obtains)
  let ?f = "hit_result e db (MinScore (with_defaults opts))
      (keyword_hits e db query (go_int (Limit (with_defaults opts) * 2)))"
  have "r \<in> set (take (nat (Limit (with_defaults opts)))
      (List.map_filter ?f (dedup_hits {} vecResults)))"
    using Recall_results(1) [OF assms(1) e v] assms(2) by simp
  then have "r \<in> set (List.map_filter ?f (dedup_hits {} vecResults))"
    by (rule in_set_takeD)
  then obtain vr where h: "?f vr = Some r"
    by (auto dest: in_map_filter)
  show ?thesis
    using hit_result_Some(3,4) [OF h] by simp
qed

lemma Recall_after_Delete:
  assumes "fst (Delete e db i) = Inr ()"
    and "Recall e' (snd (Delete e db i)) query opts = (Inr results, db')"
  shows "i \<notin> set (map (\<lambda>r. ID (Memory r)) results)"
proof
  assume "i \<in> set (map (\<lambda>r. ID (Memory r)) results)"
  then obtain r where r: "r \<in> set results" and i: "ID (Memory r) = i"
    by auto
  have "fetched e' (snd (Delete e db i)) i"
    using Recall_only_fetched [OF assms(2) r] i by simp
  moreover have "find (\<lambda>row. m_id row = i) (filter (\<lambda>row. m_id row \<noteq> i) (memories db)) = None"
    by (simp add: find_None_iff)
  ultimately show False
    using assms(1)
    by (simp add: fetched_def GetMemory_def Delete_def DeleteMemory_def split: if_splits)
qed

lemma Delete_cascades_when_enforced:
  assumes "foreign_keys db" and "fst (Delete e db i) = Inr ()"
  shows "filter (\<lambda>r. r_from_id r = i \<or> r_to_id r = i) (relations (snd (Delete e db i))) = []"
  using assms
  by (auto simp add: Delete_def DeleteMemory_def filter_empty_conv split: if_splits)

subsection \<open>Storing twice under one topic key\<close>

lemma format_parse_RFC3339 [simp]: "format_RFC3339 (parse_RFC3339 s) = s"
  by (simp add: format_RFC3339_def parse_RFC3339_def)

lemma row_values_scanMemory [simp]: "row_values (scanMemory row) = row"
  by (simp add: row_values_def scanMemory_def)

lemma map_m_id_upsert_memory:
  "m_id new \<in> set (map m_id rows) \<Longrightarrow> map m_id (upsert_memory new rows) = map m_id rows"
  by (induction rows) (auto simp add: upsert_memory_def)

lemma distinct_upsert_memory:
  "distinct (map m_id rows) \<Longrightarrow> distinct (map m_id (upsert_memory new rows))"
proof (cases "m_id new \<in> set (map m_id rows)")
  case True
  assume "distinct (map m_id rows)"
  then show ?thesis using map_m_id_upsert_memory [OF True] by simp
next
  case False
  assume "distinct (map m_id rows)"
  then show ?thesis using False by (simp add: upsert_memory_def)
qed

lemma same_id_same_row:
  "distinct (map m_id rows) \<Longrightarrow> x \<in> set rows \<Longrightarrow> y \<in> set rows \<Longrightarrow> m_id x = m_id y \<Longrightarrow> x = y"
  by (meson distinct_map inj_on_def)

lemma find_by_id:
  "distinct (map m_id rows) \<Longrightarrow> r \<in> set rows \<Longrightarrow> find (\<lambda>row. m_id row = m_id r) rows = Some r"
proof (induction rows)
  case Nil
  then show ?case by simp
next
  case (Cons x rows)
  then show ?case by (cases "x = r") auto
qed

lemma filter_topic_upsert_new:
  assumes "topicKey \<notin> set (map m_topic_key rows)" and "distinct (map m_id rows)"
    and "m_topic_key new = topicKey"
  shows "\<exists>c. filter (\<lambda>row. m_topic_key row = topicKey) (upsert_memory new rows) =
      [new\<lparr>m_created_at := c\<rparr>] \<and>
      (m_id new \<notin> set (map m_id rows) \<longrightarrow> c = m_created_at new)"
proof (cases "m_id new \<in> set (map m_id rows)")
  case False
  have "filter (\<lambda>row. m_topic_key row = topicKey) rows = []"
    using assms(1) by (auto simp add: filter_empty_conv)
  then have "filter (\<lambda>row. m_topic_key row = topicKey) (upsert_memory new rows) =
      [new\<lparr>m_created_at := m_created_at new\<rparr>]"
    using False assms(3) by (simp add: upsert_memory_def)
  then show ?thesis by blast
next
  case True
  let ?f = "\<lambda>old. if m_id old = m_id new then new\<lparr>m_created_at := m_created_at old\<rparr> else old"
  have "\<exists>c. filter (\<lambda>row. m_topic_key row = topicKey) (map ?f rows) = [new\<lparr>m_created_at := c\<rparr>]"
    using True assms(1,2)
  proof (induction rows)
    case Nil
    then show ?case by simp
  next
    case (Cons x rows)
    show ?case
    proof (cases "m_id x = m_id new")
      case True
      then have n: "m_id new \<notin> set (map m_id rows)"
        using Cons.prems(3) by auto
      then have "map ?f rows = rows"
        by (induction rows) auto
      moreover have "filter (\<lambda>row. m_topic_key row = topicKey) rows = []"
        using Cons.prems(2) by (auto simp add: filter_empty_conv)
      ultimately have "filter (\<lambda>row. m_topic_key row = topicKey) (map ?f (x # rows)) =
          [new\<lparr>m_created_at := m_created_at x\<rparr>]"
        using True assms(3) by simp
      then show ?thesis by blast
    next
      case False
      then have "m_id new \<in> set (map m_id rows)"
        using Cons.prems(1) by auto
      then obtain c where "filter (\<lambda>row. m_topic_key row = topicKey) (map ?f rows) =
          [new\<lparr>m_created_at := c\<rparr>]"
        using Cons.IH Cons.prems(2,3) by auto
      moreover have "m_topic_key x \<noteq> topicKey"
        using Cons.prems(2) by auto
      ultimately have "filter (\<lambda>row. m_topic_key row = topicKey) (map ?f (x # rows)) =
          [new\<lparr>m_created_at := c\<rparr>]"
        using False by simp
      then show ?thesis by blast
    qed
  qed
  then show ?thesis
    using True by (simp add: upsert_memory_def)
qed

lemma upsert_memory_existing:
  assumes "distinct (map m_id rows)" and "r \<in> set rows" and "m_id new = m_id r"
    and "m_topic_key new = m_topic_key r"
  shows "filter (\<lambda>row. m_topic_key row = topicKey) (upsert_memory new rows) =
      map (\<lambda>old. if m_id old = m_id new then new\<lparr>m_created_at := m_created_at old\<rparr> else old)
        (filter (\<lambda>row. m_topic_key row = topicKey) rows)"
    and "find (\<lambda>row. m_id row = m_id r) (upsert_memory new rows) =
      Some (new\<lparr>m_created_at := m_created_at r\<rparr>)"
proof -
  let ?f = "\<lambda>old. if m_id old = m_id new then new\<lparr>m_created_at := m_created_at old\<rparr> else old"
  have u: "upsert_memory new rows = map ?f rows"
    using assms(2,3) by (auto simp add: upsert_memory_def)
  have t: "\<forall>x \<in> set rows. m_topic_key (?f x) = m_topic_key x"
    using same_id_same_row [OF assms(1) _ assms(2)] assms(3,4) by auto
  have "filter (\<lambda>row. m_topic_key row = topicKey) (map ?f rows) =
      map ?f (filter (\<lambda>row. m_topic_key row = topicKey) rows)"
    using t by (induction rows) auto
  then show "filter (\<lambda>row. m_topic_key row = topicKey) (upsert_memory new rows) =
      map ?f (filter (\<lambda>row. m_topic_key row = topicKey) rows)"
    using u by simp
  have d: "distinct (map m_id (map ?f rows))"
    using distinct_upsert_memory [OF assms(1), of new] u by simp
  have "?f r \<in> set (map ?f rows)"
    using assms(2) by (simp del: map_eq_conv)
  then have "find (\<lambda>row. m_id row = m_id (?f r)) (map ?f rows) = Some (?f r)"
    using find_by_id [OF d] by blast
  then show "find (\<lambda>row. m_id row = m_id r) (upsert_memory new rows) =
      Some (new\<lparr>m_created_at := m_created_at r\<rparr>)"
    using u assms(3) by simp
qed


lemma Store_Inr:
  assumes "Store e db content opts = (Inr m, db', warnings)"
  shows "m = store_memory e db content opts"
    and "memories db' = upsert_memory (row_values m) (memories db)"
proof -
  let ?m = "store_memory e db content opts"
  have f: "\<not> fails e SaveMemoryStmt"
    using assms by (auto simp add: Store_def SaveMemory_def split: if_splits)
  then have s: "SaveMemory e db ?m =
      (Inr (), db\<lparr>memories := upsert_memory (row_values ?m) (memories db)\<rparr>)"
    by (simp add: SaveMemory_def)
  show m: "m = ?m"
  proof (cases "Embed e content")
    case (Inl err)
    then show ?thesis using assms s by (simp add: Store_def Let_def)
  next
    case (Inr embedding)
    then show ?thesis using assms s
      by (cases "SaveEmbedding e (db\<lparr>memories := upsert_memory (row_values ?m) (memories db)\<rparr>)
            (ID ?m) embedding (Model e)")
        (auto simp add: Store_def Let_def split: sum.splits)
  qed
  show "memories db' = upsert_memory (row_values m) (memories db)"
  proof (cases "Embed e content")
    case (Inl err)
    then show ?thesis using assms s m by (auto simp add: Store_def Let_def)
  next
    case (Inr embedding)
    let ?db1 = "db\<lparr>memories := upsert_memory (row_values ?m) (memories db)\<rparr>"
    have "memories (snd (SaveEmbedding e ?db1 (ID ?m) embedding (Model e))) = memories ?db1"
      by (rule memories_SaveEmbedding)
    moreover have "db' = snd (SaveEmbedding e ?db1 (ID ?m) embedding (Model e))"
      using assms s Inr
      by (cases "SaveEmbedding e ?db1 (ID ?m) embedding (Model e)")
        (auto simp add: Store_def Let_def split: sum.splits)
    ultimately show ?thesis using m by simp
  qed
qed

lemma store_memory_new:
  assumes "sTopicKey opts \<notin> set (map m_topic_key (memories db))"
  shows "store_memory e db content opts =
     \<lparr>ID = generateID e, Content = content,
      Type = (if sType opts = [] then TypeGeneral else sType opts),
      TopicKey = sTopicKey opts, Tags = sTags opts,
      Trust = (if sTrust opts = [] then TrustProposed else sTrust opts),
      Metadata = \<lparr>Source = sSource opts, Project = sProject opts, Author = [],
                  ExtraData = sExtraData opts\<rparr>,
      CreatedAt = timeNow e 0, UpdatedAt = timeNow e 1, AccessCnt = 0\<rparr>"
proof -
  have "filter (\<lambda>row. m_topic_key row = sTopicKey opts) (memories db) = []"
    using assms by (force simp add: filter_empty_conv)
  then show ?thesis
    by (simp add: store_memory_def GetMemoryByTopicKey_def order_by_updated_at_desc_def)
qed

lemma store_memory_found:
  assumes "sTopicKey opts \<noteq> []" and "\<not> fails e GetMemoryByTopicKeyStmt"
    and "filter (\<lambda>row. m_topic_key row = sTopicKey opts) (memories db) = [r]"
  shows "store_memory e db content opts =
     (scanMemory r)\<lparr>Content := content, UpdatedAt := timeNow e 0,
        Tags := (if sTags opts \<noteq> None then sTags opts else Tags (scanMemory r)),
        Type := (if sType opts \<noteq> [] then sType opts else Type (scanMemory r)),
        Trust := (if sTrust opts \<noteq> [] then sTrust opts else Trust (scanMemory r))\<rparr>"
  using assms
  by (simp add: store_memory_def GetMemoryByTopicKey_def order_by_updated_at_desc_def)


text \<open>
  Claim C1. Two successive stores under one non-empty topic key, the first creating the
  record (no row has the key before it, and identifiers are unique in the table) and
  the second finding it (its lookup does not fail): the record read after the second
  call is the record read after the first with the content and \<open>updatedAt\<close> of the
  second call, and with the tags, type and trust of the second call where it supplied
  them. Its \<open>id\<close> and \<open>createdAt\<close> are those of the first call, the second call
  returns them, and exactly one row has the topic key afterwards.
\<close>

theorem store_same_topic_key:
  assumes k: "topicKey \<noteq> []"
    and o1: "sTopicKey opts1 = topicKey" and o2: "sTopicKey opts2 = topicKey"
    and pk: "distinct (map m_id (memories db0))"
    and fresh: "topicKey \<notin> set (map m_topic_key (memories db0))"
    and s1: "Store e1 db0 content1 opts1 = (Inr m1, db1, warnings1)"
    and s2: "Store e2 db1 content2 opts2 = (Inr m2, db2, warnings2)"
    and found: "\<not> fails e2 GetMemoryByTopicKeyStmt"
    and g: "\<not> fails e3 (GetMemoryStmt (ID m1))"
  shows "\<exists>old. Get e3 db1 (ID m1) = Inr (Some old) \<and>
     ID old = ID m1 \<and>
     (ID m1 \<notin> set (map m_id (memories db0)) \<longrightarrow>
        CreatedAt old = parse_RFC3339 (format_RFC3339 (CreatedAt m1))) \<and>
     ID m2 = ID m1 \<and> CreatedAt m2 = CreatedAt old \<and>
     Get e3 db2 (ID m1) =
       Inr (Some (old\<lparr>Content := content2,
                      UpdatedAt := parse_RFC3339 (format_RFC3339 (timeNow e2 0)),
                      Tags := (if sTags opts2 \<noteq> None then sTags opts2 else Tags old),
                      Type := (if sType opts2 \<noteq> [] then sType opts2 else Type old),
                      Trust := (if sTrust opts2 \<noteq> [] then sTrust opts2 else Trust old)\<rparr>)) \<and>
     length (filter (\<lambda>row. m_topic_key row = topicKey) (memories db2)) = 1"
proof -
  let ?rows0 = "memories db0" and ?rows1 = "memories db1" and ?rows2 = "memories db2"
  have m1: "m1 = store_memory e1 db0 content1 opts1"
    and rows1: "?rows1 = upsert_memory (row_values m1) ?rows0"
    using Store_Inr [OF s1] by simp_all
  have t1: "m_topic_key (row_values m1) = topicKey" and i1: "m_id (row_values m1) = ID m1"
    and c1: "m_created_at (row_values m1) = format_RFC3339 (CreatedAt m1)"
    using m1 store_memory_new [of opts1 db0 e1 content1] fresh o1
    by (simp_all add: row_values_def)
  obtain c where f1: "filter (\<lambda>row. m_topic_key row = topicKey) ?rows1 =
      [(row_values m1)\<lparr>m_created_at := c\<rparr>]"
    and c: "ID m1 \<notin> set (map m_id ?rows0) \<longrightarrow> c = format_RFC3339 (CreatedAt m1)"
    using filter_topic_upsert_new [OF fresh pk t1] rows1 i1 c1 by auto
  let ?r1 = "(row_values m1)\<lparr>m_created_at := c\<rparr>"
  let ?old = "scanMemory ?r1"
  have d1: "distinct (map m_id ?rows1)"
    using distinct_upsert_memory [OF pk] rows1 by simp
  have "?r1 \<in> set (filter (\<lambda>row. m_topic_key row = topicKey) ?rows1)"
    using f1 by simp
  then have r1: "?r1 \<in> set ?rows1"
    by simp
  have ir: "m_id ?r1 = ID m1"
    using i1 by simp
  have find1: "find (\<lambda>row. m_id row = ID m1) ?rows1 = Some ?r1"
    using find_by_id [OF d1 r1] ir by simp
  have get1: "Get e3 db1 (ID m1) = Inr (Some ?old)"
    using g find1 by (simp add: Get_def GetMemory_def)
  have io: "ID ?old = ID m1"
    using i1 by (simp add: scanMemory_def)
  have co: "ID m1 \<notin> set (map m_id ?rows0) \<longrightarrow>
      CreatedAt ?old = parse_RFC3339 (format_RFC3339 (CreatedAt m1))"
    using c by (simp add: scanMemory_def)
  let ?m2 = "?old\<lparr>Content := content2, UpdatedAt := timeNow e2 0,
        Tags := (if sTags opts2 \<noteq> None then sTags opts2 else Tags ?old),
        Type := (if sType opts2 \<noteq> [] then sType opts2 else Type ?old),
        Trust := (if sTrust opts2 \<noteq> [] then sTrust opts2 else Trust ?old)\<rparr>"
  have m2: "m2 = ?m2"
    using Store_Inr(1) [OF s2] store_memory_found [of opts2 e2 db1 ?r1 content2] k o2 found f1
    by simp
  have rows2: "?rows2 = upsert_memory (row_values m2) ?rows1"
    using Store_Inr(2) [OF s2] .
  have i2: "m_id (row_values m2) = m_id ?r1" and t2: "m_topic_key (row_values m2) = m_topic_key ?r1"
    using m2 by (simp_all add: row_values_def scanMemory_def)
  have f2: "filter (\<lambda>row. m_topic_key row = topicKey) ?rows2 =
      map (\<lambda>old. if m_id old = m_id (row_values m2)
                  then (row_values m2)\<lparr>m_created_at := m_created_at old\<rparr> else old)
        (filter (\<lambda>row. m_topic_key row = topicKey) ?rows1)"
    using upsert_memory_existing(1) [OF d1 r1 i2 t2] rows2 by simp
  have one: "length (filter (\<lambda>row. m_topic_key row = topicKey) ?rows2) = 1"
    unfolding f2 f1 by simp
  have find2: "find (\<lambda>row. m_id row = ID m1) ?rows2 =
      Some ((row_values m2)\<lparr>m_created_at := m_created_at ?r1\<rparr>)"
    using upsert_memory_existing(2) [OF d1 r1 i2 t2] rows2 ir by simp
  have "scanMemory ((row_values m2)\<lparr>m_created_at := m_created_at ?r1\<rparr>) =
      ?old\<lparr>Content := content2,
           UpdatedAt := parse_RFC3339 (format_RFC3339 (timeNow e2 0)),
           Tags := (if sTags opts2 \<noteq> None then sTags opts2 else Tags ?old),
           Type := (if sType opts2 \<noteq> [] then sType opts2 else Type ?old),
           Trust := (if sTrust opts2 \<noteq> [] then sTrust opts2 else Trust ?old)\<rparr>"
    unfolding m2 by (simp add: row_values_def scanMemory_def)
  then have get2: "Get e3 db2 (ID m1) =
      Inr (Some (?old\<lparr>Content := content2,
           UpdatedAt := parse_RFC3339 (format_RFC3339 (timeNow e2 0)),
           Tags := (if sTags opts2 \<noteq> None then sTags opts2 else Tags ?old),
           Type := (if sType opts2 \<noteq> [] then sType opts2 else Type ?old),
           Trust := (if sTrust opts2 \<noteq> [] then sTrust opts2 else Trust ?old)\<rparr>))"
    using g find2 by (simp add: Get_def GetMemory_def)
  have "ID m2 = ID m1" and "CreatedAt m2 = CreatedAt ?old"
    using m2 io by simp_all
  then show ?thesis
    using get1 io co get2 one by blast
qed

lemma topic_v1_eq:
  "topic_v1 =
     \<lparr>foreign_keys = False,
      memories = [\<lparr>m_id = ''a1'', m_content = ''v1'', m_type = ''general'',
         m_topic_key = ''a/b'', m_tags = None, m_trust = ''proposed'',
         m_metadata = \<lparr>Source = [], Project = [], Author = [], ExtraData = []\<rparr>,
         m_created_at = 1700000000, m_updated_at = 1700000000, m_access_count = 0\<rparr>],
      relations = [],
      embeddings = [\<lparr>e_memory_id = ''a1'', e_embedding = float32ToBytes example_vector,
         e_model = ''text-embedding-3-small'', e_created_at = 1700000000\<rparr>],
      vec_memories = [\<lparr>v_memory_id = ''a1'', v_embedding = example_vector\<rparr>]\<rparr>"
  by (simp add: topic_v1_def topic_options_def Store_def store_memory_def
      GetMemoryByTopicKey_def order_by_updated_at_desc_def example_env_def New_def
      empty_file_def no_options_def SaveMemory_def row_values_def SaveEmbedding_def
      upsert_memory_def upsert_embedding_def length_example_vector dsn_def
      dsn_foreign_keys_def TypeGeneral_def TrustProposed_def format_RFC3339_def Let_def
      del: set_filter)

lemma store_v1:
  "Store example_env (New empty_file) ''v1'' topic_options = (Inr memory_v1, topic_v1, [])"
proof -
  have "fst (Store example_env (New empty_file) ''v1'' topic_options) = Inr memory_v1"
    and "snd (snd (Store example_env (New empty_file) ''v1'' topic_options)) = []"
    by (simp_all add: memory_v1_def topic_options_def Store_def store_memory_def
      GetMemoryByTopicKey_def order_by_updated_at_desc_def example_env_def New_def
      empty_file_def no_options_def SaveMemory_def row_values_def SaveEmbedding_def
      upsert_memory_def upsert_embedding_def length_example_vector dsn_def
      dsn_foreign_keys_def format_RFC3339_def Let_def del: set_filter)
  then show ?thesis
    unfolding topic_v1_def by (metis prod.collapse)
qed

lemma topic_v2_eq:
  "topic_v2 =
     \<lparr>foreign_keys = False,
      memories = [\<lparr>m_id = ''a1'', m_content = ''v2'', m_type = ''general'',
         m_topic_key = ''a/b'', m_tags = None, m_trust = ''proposed'',
         m_metadata = \<lparr>Source = [], Project = [], Author = [], ExtraData = []\<rparr>,
         m_created_at = 1700000000, m_updated_at = 1700000060, m_access_count = 0\<rparr>],
      relations = [],
      embeddings = [\<lparr>e_memory_id = ''a1'', e_embedding = float32ToBytes example_vector,
         e_model = ''text-embedding-3-small'', e_created_at = 1700000000\<rparr>],
      vec_memories = [\<lparr>v_memory_id = ''a1'', v_embedding = example_vector\<rparr>]\<rparr>"
  by (simp add: topic_v2_def topic_v1_eq topic_options_def later_env_def Store_def
      store_memory_def GetMemoryByTopicKey_def order_by_updated_at_desc_def scanMemory_def
      parse_RFC3339_def example_env_def no_options_def SaveMemory_def row_values_def
      SaveEmbedding_def upsert_memory_def upsert_embedding_def length_example_vector
      format_RFC3339_def Let_def del: set_filter)

lemma store_v2:
  "Store later_env topic_v1 ''v2'' topic_options = (Inr memory_v2, topic_v2, [])"
proof -
  have "fst (Store later_env topic_v1 ''v2'' topic_options) = Inr memory_v2"
    and "snd (snd (Store later_env topic_v1 ''v2'' topic_options)) = []"
    by (simp_all add: memory_v2_def memory_v1_def topic_v1_eq topic_options_def later_env_def
      Store_def store_memory_def GetMemoryByTopicKey_def order_by_updated_at_desc_def
      scanMemory_def parse_RFC3339_def example_env_def no_options_def SaveMemory_def
      row_values_def SaveEmbedding_def upsert_memory_def upsert_embedding_def
      length_example_vector format_RFC3339_def TypeGeneral_def TrustProposed_def Let_def
      del: set_filter)
  then show ?thesis
    unfolding topic_v2_def by (metis prod.collapse)
qed

theorem store_same_topic_key_witness:
  "''a/b'' \<noteq> [] \<and> sTopicKey topic_options = ''a/b'' \<and>
   distinct (map m_id (memories (New empty_file))) \<and>
   ''a/b'' \<notin> set (map m_topic_key (memories (New empty_file))) \<and>
   Store example_env (New empty_file) ''v1'' topic_options = (Inr memory_v1, topic_v1, []) \<and>
   Store later_env topic_v1 ''v2'' topic_options = (Inr memory_v2, topic_v2, []) \<and>
   \<not> fails later_env GetMemoryByTopicKeyStmt \<and>
   \<not> fails example_env (GetMemoryStmt (ID memory_v1)) \<and>
   ID memory_v2 = ID memory_v1 \<and> CreatedAt memory_v2 = CreatedAt memory_v1 \<and>
   Get example_env topic_v2 (ID memory_v1) = Inr (Some memory_v2) \<and>
   length (filter (\<lambda>row. m_topic_key row = ''a/b'') (memories topic_v2)) = 1"
proof -
  have h: "''a/b'' \<noteq> []" "sTopicKey topic_options = ''a/b''"
    "distinct (map m_id (memories (New empty_file)))"
    "''a/b'' \<notin> set (map m_topic_key (memories (New empty_file)))"
    "\<not> fails later_env GetMemoryByTopicKeyStmt"
    "\<not> fails example_env (GetMemoryStmt (ID memory_v1))"
    by (simp_all add: topic_options_def no_options_def New_def empty_file_def later_env_def
        example_env_def)
  obtain old where o: "Get example_env topic_v1 (ID memory_v1) = Inr (Some old)"
    and i: "ID memory_v2 = ID memory_v1" and c: "CreatedAt memory_v2 = CreatedAt old"
    and g: "Get example_env topic_v2 (ID memory_v1) =
       Inr (Some (old\<lparr>Content := ''v2'',
                      UpdatedAt := parse_RFC3339 (format_RFC3339 (timeNow later_env 0)),
                      Tags := (if sTags topic_options \<noteq> None then sTags topic_options
                               else Tags old),
                      Type := (if sType topic_options \<noteq> [] then sType topic_options
                               else Type old),
                      Trust := (if sTrust topic_options \<noteq> [] then sTrust topic_options
                                else Trust old)\<rparr>))"
    and l: "length (filter (\<lambda>row. m_topic_key row = ''a/b'') (memories topic_v2)) = 1"
    using store_same_topic_key [OF h(1) h(2) h(2) h(3) h(4) store_v1 store_v2 h(5) h(6)] by blast
  have "old = memory_v1\<lparr>UpdatedAt := 1700000000000000000\<rparr>"
    using o by (simp add: Get_def GetMemory_def topic_v1_eq memory_v1_def example_env_def
        scanMemory_def parse_RFC3339_def TypeGeneral_def TrustProposed_def)
  then have "Get example_env topic_v2 (ID memory_v1) = Inr (Some memory_v2)"
    and "CreatedAt memory_v2 = CreatedAt memory_v1"
    using g c by (simp_all add: memory_v2_def topic_options_def no_options_def later_env_def
        parse_RFC3339_def format_RFC3339_def)
  then show ?thesis
    using h store_v1 store_v2 i l by simp
qed

lemma list_by_prefix:
  "List_memories example_env topic_v2 (default_options\<lparr>rTopicKey := ''a/''\<rparr>) =
     Inr [memory_v2]"
  by (simp add: List_memories_def ListMemories_def list_conditions_def default_options_def
      topic_v2_eq example_env_def order_by_updated_at_desc_def scanMemory_def
      parse_RFC3339_def memory_v2_def memory_v1_def ascii_upper_def TypeGeneral_def
      TrustProposed_def)

end
